theory Spec2Isabelle
  imports Complex_Main "HOL-Library.Sublist"
begin

section \<open>A command-line currency converter\<close>

text \<open>
  The program fetches a table of exchange rates, multiplies an amount by the rate of each
  requested target currency, prints the result and appends it to a history file. This
  theory embeds its functions as HOL functions. Strings are byte lists (Go strings are
  UTF-8 byte sequences), so the Russian messages of the source appear as their bytes.
  The type \<open>float64\<close> is a type parameter \<open>'f\<close> with a multiplication and a zero:
  nothing below depends on how a product is rounded.
\<close>

subsection \<open>Message texts\<close>

text \<open>
  The Russian texts that the claims are about, each as the UTF-8 bytes of the string
  literal of the source; the comment gives the text in Latin letters.
\<close>

definition msg_currency_prefix :: string where
  \<comment> \<open>the bytes of "valyuta " (currency): the format of the error of convertCurrency before %s\<close>
  "msg_currency_prefix =
    [CHR 0xD0, CHR 0xB2, CHR 0xD0, CHR 0xB0, CHR 0xD0, CHR 0xBB, CHR 0xD1, CHR 0x8E,
     CHR 0xD1, CHR 0x82, CHR 0xD0, CHR 0xB0, CHR 0x20]"

definition msg_currency_suffix :: string where
  \<comment> \<open>the bytes of " ne naidena" (not found): the same format after %s\<close>
  "msg_currency_suffix =
    [CHR 0x20, CHR 0xD0, CHR 0xBD, CHR 0xD0, CHR 0xB5, CHR 0x20, CHR 0xD0, CHR 0xBD,
     CHR 0xD0, CHR 0xB0, CHR 0xD0, CHR 0xB9, CHR 0xD0, CHR 0xB4, CHR 0xD0, CHR 0xB5,
     CHR 0xD0, CHR 0xBD, CHR 0xD0, CHR 0xB0]"

definition msg_one_day :: string where
  \<comment> \<open>the bytes of "1 den nazad" (1 day ago)\<close>
  "msg_one_day =
    [CHR 0x31, CHR 0x20, CHR 0xD0, CHR 0xB4, CHR 0xD0, CHR 0xB5, CHR 0xD0, CHR 0xBD,
     CHR 0xD1, CHR 0x8C, CHR 0x20, CHR 0xD0, CHR 0xBD, CHR 0xD0, CHR 0xB0, CHR 0xD0,
     CHR 0xB7, CHR 0xD0, CHR 0xB0, CHR 0xD0, CHR 0xB4]"

definition msg_days_suffix :: string where
  \<comment> \<open>the bytes of " dnya/dnei nazad" (days ago), after %d\<close>
  "msg_days_suffix =
    [CHR 0x20, CHR 0xD0, CHR 0xB4, CHR 0xD0, CHR 0xBD, CHR 0xD1, CHR 0x8F, CHR 0x2F,
     CHR 0xD0, CHR 0xB4, CHR 0xD0, CHR 0xBD, CHR 0xD0, CHR 0xB5, CHR 0xD0, CHR 0xB9,
     CHR 0x20, CHR 0xD0, CHR 0xBD, CHR 0xD0, CHR 0xB0, CHR 0xD0, CHR 0xB7, CHR 0xD0,
     CHR 0xB0, CHR 0xD0, CHR 0xB4]"

definition msg_one_hour :: string where
  \<comment> \<open>the bytes of "1 chas nazad" (1 hour ago)\<close>
  "msg_one_hour =
    [CHR 0x31, CHR 0x20, CHR 0xD1, CHR 0x87, CHR 0xD0, CHR 0xB0, CHR 0xD1, CHR 0x81,
     CHR 0x20, CHR 0xD0, CHR 0xBD, CHR 0xD0, CHR 0xB0, CHR 0xD0, CHR 0xB7, CHR 0xD0,
     CHR 0xB0, CHR 0xD0, CHR 0xB4]"

definition msg_hours_few_suffix :: string where
  \<comment> \<open>the bytes of " chasa nazad" (hours ago, for 2 to 4), after %d\<close>
  "msg_hours_few_suffix =
    [CHR 0x20, CHR 0xD1, CHR 0x87, CHR 0xD0, CHR 0xB0, CHR 0xD1, CHR 0x81, CHR 0xD0,
     CHR 0xB0, CHR 0x20, CHR 0xD0, CHR 0xBD, CHR 0xD0, CHR 0xB0, CHR 0xD0, CHR 0xB7,
     CHR 0xD0, CHR 0xB0, CHR 0xD0, CHR 0xB4]"

definition msg_hours_many_suffix :: string where
  \<comment> \<open>the bytes of " chasov nazad" (hours ago, from 5 on), after %d\<close>
  "msg_hours_many_suffix =
    [CHR 0x20, CHR 0xD1, CHR 0x87, CHR 0xD0, CHR 0xB0, CHR 0xD1, CHR 0x81, CHR 0xD0,
     CHR 0xBE, CHR 0xD0, CHR 0xB2, CHR 0x20, CHR 0xD0, CHR 0xBD, CHR 0xD0, CHR 0xB0,
     CHR 0xD0, CHR 0xB7, CHR 0xD0, CHR 0xB0, CHR 0xD0, CHR 0xB4]"

definition msg_one_minute :: string where
  \<comment> \<open>the bytes of "1 minutu nazad" (1 minute ago)\<close>
  "msg_one_minute =
    [CHR 0x31, CHR 0x20, CHR 0xD0, CHR 0xBC, CHR 0xD0, CHR 0xB8, CHR 0xD0, CHR 0xBD,
     CHR 0xD1, CHR 0x83, CHR 0xD1, CHR 0x82, CHR 0xD1, CHR 0x83, CHR 0x20, CHR 0xD0,
     CHR 0xBD, CHR 0xD0, CHR 0xB0, CHR 0xD0, CHR 0xB7, CHR 0xD0, CHR 0xB0, CHR 0xD0,
     CHR 0xB4]"

definition msg_minutes_few_suffix :: string where
  \<comment> \<open>the bytes of " minuty nazad" (minutes ago, for 2 to 4), after %d\<close>
  "msg_minutes_few_suffix =
    [CHR 0x20, CHR 0xD0, CHR 0xBC, CHR 0xD0, CHR 0xB8, CHR 0xD0, CHR 0xBD, CHR 0xD1,
     CHR 0x83, CHR 0xD1, CHR 0x82, CHR 0xD1, CHR 0x8B, CHR 0x20, CHR 0xD0, CHR 0xBD,
     CHR 0xD0, CHR 0xB0, CHR 0xD0, CHR 0xB7, CHR 0xD0, CHR 0xB0, CHR 0xD0, CHR 0xB4]"

definition msg_minutes_many_suffix :: string where
  \<comment> \<open>the bytes of " minut nazad" (minutes ago, from 5 on), after %d\<close>
  "msg_minutes_many_suffix =
    [CHR 0x20, CHR 0xD0, CHR 0xBC, CHR 0xD0, CHR 0xB8, CHR 0xD0, CHR 0xBD, CHR 0xD1,
     CHR 0x83, CHR 0xD1, CHR 0x82, CHR 0x20, CHR 0xD0, CHR 0xBD, CHR 0xD0, CHR 0xB0,
     CHR 0xD0, CHR 0xB7, CHR 0xD0, CHR 0xB0, CHR 0xD0, CHR 0xB4]"

definition msg_just_now :: string where
  \<comment> \<open>the bytes of "tolko chto" (just now)\<close>
  "msg_just_now =
    [CHR 0xD1, CHR 0x82, CHR 0xD0, CHR 0xBE, CHR 0xD0, CHR 0xBB, CHR 0xD1, CHR 0x8C,
     CHR 0xD0, CHR 0xBA, CHR 0xD0, CHR 0xBE, CHR 0x20, CHR 0xD1, CHR 0x87, CHR 0xD1,
     CHR 0x82, CHR 0xD0, CHR 0xBE]"

subsection \<open>Data model\<close>

text \<open>\<open>ExchangeRateResponse\<close>: the decoded answer of the rate service.\<close>

record 'f ExchangeRateResponse =
  Base :: string
  Date :: string
  Rates :: "string \<rightharpoonup> 'f"
  TimeLastUpdated :: int

subsection \<open>Integer arithmetic and formatting of Go\<close>

text \<open>Go's \<open>/\<close> and \<open>%\<close> on integers truncate toward zero; the remainder has the sign of the dividend.\<close>

definition go_quot :: "int \<Rightarrow> int \<Rightarrow> int" where
  "go_quot a b = sgn a * sgn b * (\<bar>a\<bar> div \<bar>b\<bar>)"

definition go_rem :: "int \<Rightarrow> int \<Rightarrow> int" where
  "go_rem a b = a - b * go_quot a b"

text \<open>The conversion \<open>int(x)\<close> of a floating-point number drops the fraction (toward zero).\<close>

definition go_int :: "real \<Rightarrow> int" where
  "go_int x = (if 0 \<le> x then \<lfloor>x\<rfloor> else \<lceil>x\<rceil>)"

text \<open>The verb \<open>%d\<close> of \<open>fmt.Sprintf\<close>: decimal digits, with a minus sign below zero.\<close>

definition digit_char :: "nat \<Rightarrow> char" where
  "digit_char n = ''0123456789'' ! n"

fun digits :: "nat \<Rightarrow> string" where
  "digits n = (if n < 10 then [digit_char n] else digits (n div 10) @ [digit_char (n mod 10)])"

definition sprintf_d :: "int \<Rightarrow> string" where
  "sprintf_d i = (if i < 0 then CHR ''-'' # digits (nat (- i)) else digits (nat i))"

subsection \<open>Durations\<close>

text \<open>
  A \<open>time.Duration\<close> is a signed count of nanoseconds. \<open>Hours\<close> and \<open>Minutes\<close> follow the
  methods of the standard library, which split the count into a whole part and a rest and
  add the rest as a fraction. The sum is computed here in exact arithmetic: the rounding
  of \<open>float64\<close> is not part of the model. A duration is a 64-bit integer in Go and
  an integer here; what is proved for every integer holds for the 64-bit ones, and
  \<open>formatTimeAgo\<close> only divides.
\<close>

type_synonym Duration = int

definition Minute :: Duration where
  "Minute = 60 * 1000000000"

definition Hour :: Duration where
  "Hour = 60 * Minute"

definition Hours :: "Duration \<Rightarrow> real" where
  "Hours d = (let hour = go_quot d Hour; nsec = go_rem d Hour
              in of_int hour + of_int nsec / (60 * 60 * 1000000000))"

definition Minutes :: "Duration \<Rightarrow> real" where
  "Minutes d = (let min = go_quot d Minute; nsec = go_rem d Minute
                in of_int min + of_int nsec / (60 * 1000000000))"

subsection \<open>The converter\<close>

text \<open>
  \<open>convertCurrency\<close> returns a pair as the Go function does: the value and the error,
  \<open>None\<close> for \<open>nil\<close>. \<open>fmt.Errorf\<close> puts the target code between the two parts of the
  format.
\<close>

definition errorf_not_found :: "string \<Rightarrow> string" where
  "errorf_not_found to = msg_currency_prefix @ to @ msg_currency_suffix"

definition convertCurrency ::
  "'f::{times,zero} \<Rightarrow> string \<Rightarrow> string \<Rightarrow> 'f ExchangeRateResponse \<Rightarrow> 'f \<times> string option" where
  "convertCurrency amount from to rates =
     (case Rates rates to of
        Some rate \<Rightarrow> (amount * rate, None)
      | None \<Rightarrow> (0, Some (errorf_not_found to)))"

subsection \<open>The time-ago formatter\<close>

definition formatTimeAgo :: "Duration \<Rightarrow> string" where
  "formatTimeAgo duration =
     (let hours = go_int (Hours duration);
          minutes = go_rem (go_int (Minutes duration)) 60
      in if hours > 24 then
           (let days = go_quot hours 24
            in if days = 1 then msg_one_day
               else sprintf_d days @ msg_days_suffix)
         else if hours > 0 then
           (if hours = 1 then msg_one_hour
            else if hours < 5 then sprintf_d hours @ msg_hours_few_suffix
            else sprintf_d hours @ msg_hours_many_suffix)
         else if minutes > 0 then
           (if minutes = 1 then msg_one_minute
            else if minutes < 5 then sprintf_d minutes @ msg_minutes_few_suffix
            else sprintf_d minutes @ msg_minutes_many_suffix)
         else msg_just_now)"

subsection \<open>Functions of the package \<open>strings\<close>\<close>

text \<open>
  \<open>ToUpper\<close>, \<open>ToLower\<close> and \<open>TrimSpace\<close> act here on the ASCII letters and the ASCII white
  space, which is what they do on ASCII strings such as currency codes and flags; a byte
  outside ASCII is left as it is (Go maps letters beyond ASCII by its Unicode tables,
  which are not part of this development).
\<close>

definition lower_letters :: string where
  "lower_letters = ''abcdefghijklmnopqrstuvwxyz''"

definition upper_letters :: string where
  "upper_letters = ''ABCDEFGHIJKLMNOPQRSTUVWXYZ''"

definition upper_char :: "char \<Rightarrow> char" where
  "upper_char c = (case map_of (zip lower_letters upper_letters) c of Some u \<Rightarrow> u | None \<Rightarrow> c)"

definition lower_char :: "char \<Rightarrow> char" where
  "lower_char c = (case map_of (zip upper_letters lower_letters) c of Some l \<Rightarrow> l | None \<Rightarrow> c)"

definition ToUpper :: "string \<Rightarrow> string" where
  "ToUpper s = map upper_char s"

definition ToLower :: "string \<Rightarrow> string" where
  "ToLower s = map lower_char s"

definition isSpace :: "char \<Rightarrow> bool" where
  \<comment> \<open>tab, line feed, vertical tab, form feed, carriage return, space\<close>
  "isSpace c = (c \<in> set [CHR 0x09, CHR 0x0A, CHR 0x0B, CHR 0x0C, CHR 0x0D, CHR 0x20])"

definition TrimSpace :: "string \<Rightarrow> string" where
  "TrimSpace s = rev (dropWhile isSpace (rev (dropWhile isSpace s)))"

text \<open>\<open>strings.Split(s, ",")\<close>: the pieces between the commas; one empty piece for the empty string.\<close>

fun Split_comma :: "string \<Rightarrow> string list" where
  "Split_comma [] = [[]]"
| "Split_comma (c # cs) =
     (if c = CHR '','' then [] # Split_comma cs
      else (c # hd (Split_comma cs)) # tl (Split_comma cs))"

subsection \<open>Records of the program\<close>

text \<open>A \<open>time.Time\<close> is a count of nanoseconds since the Unix epoch.\<close>

type_synonym Time = int

record 'f ConversionRecord =
  Timestamp :: Time
  FromCurrency :: string
  ToCurrency :: string
  Amount :: 'f
  Result :: 'f
  ExchangeRate :: 'f
  RateUpdateTime :: Time

text \<open>
  \<open>JSONOutput\<close> has the field \<open>Success\<close> and then the seven fields of a conversion
  record, under the same names; they are kept together as \<open>Fields\<close>.
\<close>

record 'f JSONOutput =
  Success :: bool
  Fields :: "'f ConversionRecord"

record Config =
  DefaultFrom :: string
  DefaultTo :: string
  OutputFormat :: string

definition apiURL :: string where
  "apiURL = ''https://api.exchangerate-api.com/v4/latest/''"

definition historyFile :: string where
  "historyFile = ''history.json''"

definition configFile :: string where
  "configFile = ''config.json''"

subsection \<open>The environment of a run\<close>

text \<open>
  What the program calls but does not define is a field of the environment: the number
  parser, the HTTP client, the JSON codec, the file system's answer to a write, the clock.
  \<^item> \<open>ParseFloat\<close>: \<open>strconv.ParseFloat(s, 64)\<close>, \<open>None\<close> for an error.
  \<^item> \<open>HttpGet\<close>: the transport error, or the status code with the body (or the error of
    reading it).
  \<^item> \<open>UnmarshalRates\<close>: decoding the body into a rate snapshot.
  \<^item> \<open>UnmarshalConfig data cfg\<close>: \<open>json.Unmarshal(data, &cfg)\<close>, giving the content of
    \<open>cfg\<close> after the call and the error returned. The decoder stores into the variable it
    is given, so both are results.
  \<^item> \<open>UnmarshalHistory data\<close>: the same for a slice of records that is \<open>nil\<close> before the
    call.
  \<^item> \<open>MarshalHistory\<close>, \<open>MarshalOutput\<close>: \<open>json.MarshalIndent\<close>, \<open>Inl\<close> for an error.
  \<^item> \<open>Writable name\<close>: whether \<open>os.WriteFile\<close> on that name succeeds.
  \<^item> \<open>Now n\<close>: what the \<open>n\<close>-th call of \<open>time.Now()\<close> returns.
\<close>

record 'f env =
  ParseFloat :: "string \<Rightarrow> 'f option"
  HttpGet :: "string \<Rightarrow> string + (int \<times> (string + string))"
  UnmarshalRates :: "string \<Rightarrow> string + 'f ExchangeRateResponse"
  UnmarshalConfig :: "string \<Rightarrow> Config \<Rightarrow> Config \<times> string option"
  UnmarshalHistory :: "string \<Rightarrow> 'f ConversionRecord list \<times> string option"
  MarshalHistory :: "'f ConversionRecord list \<Rightarrow> string + string"
  MarshalOutput :: "'f JSONOutput \<Rightarrow> string + string"
  Writable :: "string \<Rightarrow> bool"
  Now :: "nat \<Rightarrow> Time"

subsection \<open>The state of a run\<close>

text \<open>The four errors of \<open>getExchangeRates\<close>, one constructor for each \<open>fmt.Errorf\<close>.\<close>

datatype fetch_error =
    RequestError string
  | StatusError int
  | ReadError string
  | DecodeError string

text \<open>The messages handed to \<open>outputError\<close>, one constructor for each format string.\<close>

datatype message =
    BadAmount
  | BadArgCount
  | FetchFailed fetch_error
  | ConvertFailed string
  | EncodeFailed string

datatype prompt = AskFrom string | AskTo string | AskAmount

text \<open>
  The output of the program is the list of its print calls, in order. Each constructor
  stands for one call site, and its arguments are what the call formats: \<open>Header\<close> is
  \<open>printHeader\<close>, \<open>RedBadAmount\<close> the red line about the amount (in \<open>main\<close> and in
  \<open>getAmount\<close>), \<open>RedUsage\<close> the two red lines of usage with the program name,
  \<open>RedFetch\<close> and \<open>RedConvert\<close> the red lines about a failed fetch and a failed
  conversion, \<open>ErrorPayload\<close> a call of \<open>outputError\<close>, \<open>Loading\<close> the cyan line before
  the fetch, \<open>Prompt\<close> the \<open>fmt.Print\<close> of a prompt, \<open>ResultText\<close>, \<open>ResultJSON\<close> and
  \<open>ResultCSV\<close> the three presenters, and the last six the lines of \<open>showHistory\<close>.
\<close>

datatype 'f event =
    Header
  | RedBadAmount
  | RedUsage string
  | RedFetch fetch_error
  | RedConvert string string
  | ErrorPayload message bool
  | Loading
  | Prompt prompt
  | ResultText 'f string 'f string "'f option" Time string
  | ResultJSON string
  | ResultCSV Time string string 'f 'f 'f
  | RedHistoryMissing
  | RedHistoryUnreadable string
  | HistoryEmpty
  | HistoryHeader
  | HistoryEntry "'f ConversionRecord"
  | HistoryCount nat

text \<open>
  The state: the files of the working directory (a name with no content cannot be read),
  the lines still to be read from standard input, the number of clock readings so far and
  the output so far.
\<close>

record 'f world =
  files :: "string \<rightharpoonup> string"
  stdin :: "string list"
  ticks :: nat
  out :: "'f event list"

text \<open>A call either returns, or ends the process through \<open>os.Exit\<close> with a code.\<close>

datatype ('a, 'w) run = Exit int 'w | Ret 'a 'w

definition emit :: "'f event \<Rightarrow> 'f world \<Rightarrow> 'f world" where
  "emit e w = w\<lparr>out := out w @ [e]\<rparr>"

definition time_Now :: "'f env \<Rightarrow> 'f world \<Rightarrow> Time \<times> 'f world" where
  "time_Now env w = (Now env (ticks w), w\<lparr>ticks := Suc (ticks w)\<rparr>)"

definition time_Unix :: "int \<Rightarrow> Time" where
  \<comment> \<open>\<open>time.Unix(sec, 0)\<close>\<close>
  "time_Unix sec = sec * 1000000000"

text \<open>\<open>t.Sub(u)\<close> is the difference, kept inside the range of a 64-bit duration.\<close>

definition time_Sub :: "Time \<Rightarrow> Time \<Rightarrow> Duration" where
  "time_Sub t u = max (- (2 ^ 63)) (min (2 ^ 63 - 1) (t - u))"

definition time_Since :: "'f env \<Rightarrow> Time \<Rightarrow> 'f world \<Rightarrow> Duration \<times> 'f world" where
  "time_Since env t w = (let (now, w1) = time_Now env w in (time_Sub now t, w1))"

definition ReadFile :: "'f world \<Rightarrow> string \<Rightarrow> string option" where
  "ReadFile w name = files w name"

definition WriteFile :: "'f env \<Rightarrow> string \<Rightarrow> string \<Rightarrow> 'f world \<Rightarrow> 'f world" where
  "WriteFile env name data w =
     (if Writable env name then w\<lparr>files := (files w)(name \<mapsto> data)\<rparr> else w)"

text \<open>\<open>fmt.Scanln(&input)\<close>: the next line's word, or the empty string when there is none.\<close>

definition Scanln :: "'f world \<Rightarrow> string \<times> 'f world" where
  "Scanln w = (case stdin w of [] \<Rightarrow> ([], w) | l # ls \<Rightarrow> (l, w\<lparr>stdin := ls\<rparr>))"

subsection \<open>The rate client\<close>

definition getExchangeRates :: "'f env \<Rightarrow> string \<Rightarrow> fetch_error + 'f ExchangeRateResponse" where
  "getExchangeRates env baseCurrency =
     (case HttpGet env (apiURL @ baseCurrency) of
        Inl err \<Rightarrow> Inl (RequestError err)
      | Inr (status, body) \<Rightarrow>
          if status \<noteq> 200 then Inl (StatusError status)
          else (case body of
                  Inl err \<Rightarrow> Inl (ReadError err)
                | Inr bytes \<Rightarrow>
                    (case UnmarshalRates env bytes of
                       Inl err \<Rightarrow> Inl (DecodeError err)
                     | Inr rates \<Rightarrow> Inr rates)))"

subsection \<open>The config loader\<close>

definition loadConfig :: "'f env \<Rightarrow> 'f world \<Rightarrow> Config" where
  "loadConfig env w =
     (let cfg = \<lparr>DefaultFrom = ''USD'', DefaultTo = ''RUB'', OutputFormat = ''text''\<rparr>
      in case ReadFile w configFile of
           None \<Rightarrow> cfg
         | Some data \<Rightarrow>
             (let cfg1 = fst (UnmarshalConfig env data cfg)
              in \<lparr>DefaultFrom = ToUpper (DefaultFrom cfg1),
                  DefaultTo = ToUpper (DefaultTo cfg1),
                  OutputFormat = ToLower (OutputFormat cfg1)\<rparr>))"

subsection \<open>The presenters\<close>

definition printHeader :: "'f world \<Rightarrow> 'f world" where
  "printHeader w = emit Header w"

definition outputError :: "message \<Rightarrow> bool \<Rightarrow> 'f world \<Rightarrow> 'f world" where
  "outputError msg asJSON w = emit (ErrorPayload msg asJSON) w"

definition printResult ::
  "'f env \<Rightarrow> 'f \<Rightarrow> string \<Rightarrow> 'f \<Rightarrow> string \<Rightarrow> 'f ExchangeRateResponse \<Rightarrow> 'f world \<Rightarrow> 'f world" where
  "printResult env amount from result to rates w =
     (let updateTime = time_Unix (TimeLastUpdated rates);
          (since, w1) = time_Since env updateTime w;
          timeAgo = formatTimeAgo since
      in emit (ResultText amount from result to (Rates rates to) updateTime timeAgo) w1)"

definition outputJSON ::
  "'f env \<Rightarrow> string \<Rightarrow> string \<Rightarrow> 'f \<Rightarrow> 'f \<Rightarrow> 'f \<Rightarrow> Time \<Rightarrow> 'f world \<Rightarrow> (unit, 'f world) run" where
  "outputJSON env from to amount result rate updateTime w =
     (let (now, w1) = time_Now env w;
          output = \<lparr>Success = True,
                    Fields = \<lparr>Timestamp = now, FromCurrency = from, ToCurrency = to,
                              Amount = amount, Result = result, ExchangeRate = rate,
                              RateUpdateTime = updateTime\<rparr>\<rparr>
      in case MarshalOutput env output of
           Inl err \<Rightarrow> Exit 1 (outputError (EncodeFailed err) True w1)
         | Inr data \<Rightarrow> Ret () (emit (ResultJSON data) w1))"

definition outputCSV ::
  "'f env \<Rightarrow> string \<Rightarrow> string \<Rightarrow> 'f \<Rightarrow> 'f \<Rightarrow> 'f \<Rightarrow> Time \<Rightarrow> 'f world \<Rightarrow> 'f world" where
  "outputCSV env from to amount result rate updateTime w =
     (let (now, w1) = time_Now env w
      in emit (ResultCSV now from to amount result rate) w1)"

subsection \<open>The history store\<close>

definition saveToHistory ::
  "'f env \<Rightarrow> string \<Rightarrow> string \<Rightarrow> 'f \<Rightarrow> 'f \<Rightarrow> 'f \<Rightarrow> Time \<Rightarrow> 'f world \<Rightarrow> 'f world" where
  "saveToHistory env from to amount result rate updateTime w =
     (let (now, w1) = time_Now env w;
          record = \<lparr>Timestamp = now, FromCurrency = from, ToCurrency = to,
                    Amount = amount, Result = result, ExchangeRate = rate,
                    RateUpdateTime = updateTime\<rparr>;
          history = (case ReadFile w1 historyFile of
                       None \<Rightarrow> []
                     | Some data \<Rightarrow> fst (UnmarshalHistory env data));
          history1 = history @ [record]
      in case MarshalHistory env history1 of
           Inl err \<Rightarrow> w1
         | Inr data \<Rightarrow> WriteFile env historyFile data w1)"

text \<open>The loop of \<open>showHistory\<close>: from the last index down to 0.\<close>

function showEntries :: "'f ConversionRecord list \<Rightarrow> int \<Rightarrow> 'f world \<Rightarrow> 'f world" where
  "showEntries history i w =
     (if i \<ge> 0 then showEntries history (i - 1) (emit (HistoryEntry (history ! nat i)) w)
      else w)"
  by pat_completeness auto

termination
  by (relation "measure (\<lambda>(history, i, w). nat (i + 1))") auto

declare showEntries.simps [simp del]

definition showHistory :: "'f env \<Rightarrow> 'f world \<Rightarrow> 'f world" where
  "showHistory env w =
     (case ReadFile w historyFile of
        None \<Rightarrow> emit RedHistoryMissing w
      | Some data \<Rightarrow>
          (case UnmarshalHistory env data of
             (history, Some err) \<Rightarrow> emit (RedHistoryUnreadable err) w
           | (history, None) \<Rightarrow>
               if length history = 0 then emit HistoryEmpty w
               else (let w1 = emit HistoryHeader w;
                         w2 = showEntries history (int (length history) - 1) w1
                     in emit (HistoryCount (length history)) w2)))"

subsection \<open>Reading the parameters\<close>

definition getInput :: "prompt \<Rightarrow> 'f world \<Rightarrow> string \<times> 'f world" where
  "getInput p w =
     (let (input, w1) = Scanln (emit (Prompt p) w)
      in (ToUpper (TrimSpace input), w1))"

definition getAmount :: "'f env \<Rightarrow> 'f world \<Rightarrow> ('f, 'f world) run" where
  "getAmount env w =
     (let (input, w1) = Scanln (emit (Prompt AskAmount) w)
      in case ParseFloat env input of
           None \<Rightarrow> Exit 1 (emit RedBadAmount w1)
         | Some amount \<Rightarrow> Ret amount w1)"

text \<open>
  The loop of \<open>main\<close> that looks for the two flags. Removing the element at \<open>i\<close> is
  \<open>append(args[:i], args[i+1:]...)\<close>; the loop then takes \<open>i\<close> one back and its header one
  forward. An index below zero would be a run-time panic: \<open>None\<close>.
\<close>

function stripFlags ::
  "int \<Rightarrow> string list \<Rightarrow> bool \<Rightarrow> bool \<Rightarrow> (string list \<times> bool \<times> bool) option" where
  "stripFlags i args jsonOutput csvOutput =
     (if i < int (length args) then
        (if i < 0 then None
         else if args ! nat i = ''--json'' then
           stripFlags ((i - 1) + 1) (take (nat i) args @ drop (nat i + 1) args) True csvOutput
         else if args ! nat i = ''--csv'' then
           stripFlags ((i - 1) + 1) (take (nat i) args @ drop (nat i + 1) args) jsonOutput True
         else stripFlags (i + 1) args jsonOutput csvOutput)
      else Some (args, jsonOutput, csvOutput))"
  by pat_completeness auto

termination
  by (relation "measure (\<lambda>(i, args, j, c). nat (int (length args) - i))") auto

declare stripFlags.simps [simp del]

text \<open>
  The positional arguments: three of them, none (the prompts), or an error. The result is
  the source currency, the raw target list and the amount.
\<close>

definition readParams ::
  "'f env \<Rightarrow> Config \<Rightarrow> string \<Rightarrow> bool \<Rightarrow> bool \<Rightarrow> string list \<Rightarrow> 'f world
     \<Rightarrow> (string \<times> string \<times> 'f, 'f world) run" where
  "readParams env cfg prog jsonOutput csvOutput args w =
     (if length args = 3 then
        (let fromCurrency = ToUpper (args ! 0);
             toCurrencyRaw = ToUpper (args ! 1)
         in case ParseFloat env (args ! 2) of
              None \<Rightarrow>
                Exit 1 (if jsonOutput \<or> csvOutput then outputError BadAmount jsonOutput w
                        else emit RedBadAmount w)
            | Some amount \<Rightarrow> Ret (fromCurrency, toCurrencyRaw, amount) w)
      else if length args = 0 then
        (let (fromInput, w1) = getInput (AskFrom (DefaultFrom cfg)) w;
             fromCurrency = (if fromInput = [] then DefaultFrom cfg else fromInput);
             (toInput, w2) = getInput (AskTo (DefaultTo cfg)) w1;
             toCurrencyRaw = (if toInput = [] then DefaultTo cfg else toInput)
         in case getAmount env w2 of
              Exit code w3 \<Rightarrow> Exit code w3
            | Ret amount w3 \<Rightarrow> Ret (fromCurrency, toCurrencyRaw, amount) w3)
      else
        Exit 1 (if jsonOutput \<or> csvOutput then outputError BadArgCount jsonOutput w
                else emit (RedUsage prog) w))"

subsection \<open>Converting the targets\<close>

text \<open>
  The loop of \<open>main\<close> over the target currencies. \<open>rates.Rates[toCurrency]\<close> is the zero
  value when the key is missing.
\<close>

definition map_index :: "(string \<rightharpoonup> 'f::zero) \<Rightarrow> string \<Rightarrow> 'f" where
  "map_index m k = (case m k of Some v \<Rightarrow> v | None \<Rightarrow> 0)"

fun convertTargets ::
  "'f::{times,zero} env \<Rightarrow> bool \<Rightarrow> bool \<Rightarrow> 'f \<Rightarrow> string \<Rightarrow> 'f ExchangeRateResponse \<Rightarrow> Time
     \<Rightarrow> string list \<Rightarrow> 'f world \<Rightarrow> (unit, 'f world) run" where
  "convertTargets env jsonOutput csvOutput amount fromCurrency rates updateTime [] w = Ret () w"
| "convertTargets env jsonOutput csvOutput amount fromCurrency rates updateTime (t # ts) w =
     (let toCurrency = TrimSpace t
      in if toCurrency = [] then
           convertTargets env jsonOutput csvOutput amount fromCurrency rates updateTime ts w
         else
           (case convertCurrency amount fromCurrency toCurrency rates of
              (result, Some err) \<Rightarrow>
                convertTargets env jsonOutput csvOutput amount fromCurrency rates updateTime ts
                  (if jsonOutput \<or> csvOutput then outputError (ConvertFailed err) jsonOutput w
                   else emit (RedConvert toCurrency err) w)
            | (result, None) \<Rightarrow>
                (let rate = map_index (Rates rates) toCurrency;
                     w1 = saveToHistory env fromCurrency toCurrency amount result rate updateTime w
                 in if jsonOutput then
                      (case outputJSON env fromCurrency toCurrency amount result rate updateTime w1 of
                         Exit code w2 \<Rightarrow> Exit code w2
                       | Ret u w2 \<Rightarrow>
                           convertTargets env jsonOutput csvOutput amount fromCurrency rates
                             updateTime ts w2)
                    else if csvOutput then
                      convertTargets env jsonOutput csvOutput amount fromCurrency rates updateTime ts
                        (outputCSV env fromCurrency toCurrency amount result rate updateTime w1)
                    else
                      convertTargets env jsonOutput csvOutput amount fromCurrency rates updateTime ts
                        (printResult env amount fromCurrency result toCurrency rates w1))))"

subsection \<open>The program\<close>

text \<open>The output format: the flags, and the format of the config when no flag is given.\<close>

definition chooseFormat :: "Config \<Rightarrow> bool \<Rightarrow> bool \<Rightarrow> bool \<times> bool" where
  "chooseFormat cfg jsonOutput csvOutput =
     (if \<not> jsonOutput \<and> \<not> csvOutput then
        (if OutputFormat cfg = ''json'' then (True, csvOutput)
         else if OutputFormat cfg = ''csv'' then (jsonOutput, True)
         else (jsonOutput, csvOutput))
      else (jsonOutput, csvOutput))"

text \<open>The second half of \<open>main\<close>: split the target list, fetch the rates, convert each target.\<close>

definition convertAndPresent ::
  "'f::{times,zero} env \<Rightarrow> bool \<Rightarrow> bool \<Rightarrow> string \<times> string \<times> 'f \<Rightarrow> 'f world \<Rightarrow> int \<times> 'f world" where
  "convertAndPresent env jsonOutput csvOutput params w =
     (case params of (fromCurrency, toCurrencyRaw, amount) \<Rightarrow>
        (let toCurrencies = Split_comma toCurrencyRaw;
             w1 = (if \<not> jsonOutput \<and> \<not> csvOutput then emit Loading w else w)
         in case getExchangeRates env fromCurrency of
              Inl err \<Rightarrow>
                (1, if jsonOutput \<or> csvOutput then outputError (FetchFailed err) jsonOutput w1
                    else emit (RedFetch err) w1)
            | Inr rates \<Rightarrow>
                (let updateTime = time_Unix (TimeLastUpdated rates)
                 in case convertTargets env jsonOutput csvOutput amount fromCurrency rates
                           updateTime toCurrencies w1 of
                      Exit code w2 \<Rightarrow> (code, w2)
                    | Ret u w2 \<Rightarrow> (0, w2))))"

text \<open>
  \<open>main\<close> on the argument list of the process (the program name first) and the state at
  the start; the result is the exit code and the state at the end. An empty argument
  list makes \<open>os.Args[1:]\<close> panic, which ends a Go process with the code 2.
\<close>

definition main :: "'f::{times,zero} env \<Rightarrow> string list \<Rightarrow> 'f world \<Rightarrow> int \<times> 'f world" where
  "main env osArgs w =
     (if length osArgs > 1 \<and> osArgs ! 1 = ''--history'' then (0, showHistory env w)
      else if osArgs = [] then (2, w)
      else
        (let cfg = loadConfig env w
         in case stripFlags 0 (drop 1 osArgs) False False of
              None \<Rightarrow> (2, w)
            | Some (args, jsonFlag, csvFlag) \<Rightarrow>
                (let (jsonOutput, csvOutput) = chooseFormat cfg jsonFlag csvFlag;
                     w1 = (if \<not> jsonOutput \<and> \<not> csvOutput then printHeader w else w)
                 in case readParams env cfg (osArgs ! 0) jsonOutput csvOutput args w1 of
                      Exit code w2 \<Rightarrow> (code, w2)
                    | Ret params w2 \<Rightarrow> convertAndPresent env jsonOutput csvOutput params w2)))"

subsection \<open>Notions used in the statements\<close>

text \<open>The state in which a call ended, whichever way it ended.\<close>

fun world_of :: "('a, 'w) run \<Rightarrow> 'w" where
  "world_of (Exit code w) = w"
| "world_of (Ret x w) = w"



text \<open>
  The output of a run in JSON mode: JSON results and JSON error payloads, beside the
  prompts and the coloured complaint of \<open>getAmount\<close>, which do not look at the mode.
\<close>

fun json_style :: "'f event \<Rightarrow> bool" where
  "json_style (ResultJSON data) = True"
| "json_style (ErrorPayload msg asJSON) = asJSON"
| "json_style (Prompt p) = True"
| "json_style RedBadAmount = True"
| "json_style e = False"

text \<open>
  A request to \<open>saveToHistory\<close>: source, target, amount, result, rate and the time of the
  rates. \<open>saveAll\<close> makes the calls one after the other; \<open>newRecords env n reqs\<close> are the
  records they build when the clock has been read \<open>n\<close> times before.
\<close>

type_synonym 'f request = "string \<times> string \<times> 'f \<times> 'f \<times> 'f \<times> Time"

fun saveAll :: "'f env \<Rightarrow> 'f request list \<Rightarrow> 'f world \<Rightarrow> 'f world" where
  "saveAll env [] w = w"
| "saveAll env ((from, to, amount, result, rate, updateTime) # reqs) w =
     saveAll env reqs (saveToHistory env from to amount result rate updateTime w)"

fun newRecords :: "'f env \<Rightarrow> nat \<Rightarrow> 'f request list \<Rightarrow> 'f ConversionRecord list" where
  "newRecords env n [] = []"
| "newRecords env n ((from, to, amount, result, rate, updateTime) # reqs) =
     \<lparr>Timestamp = Now env n, FromCurrency = from, ToCurrency = to, Amount = amount,
      Result = result, ExchangeRate = rate, RateUpdateTime = updateTime\<rparr>
     # newRecords env (Suc n) reqs"

text \<open>What \<open>showHistory\<close> prints for a list of records.\<close>

definition listing :: "'f ConversionRecord list \<Rightarrow> 'f event list" where
  "listing history =
     (if history = [] then [HistoryEmpty]
      else [HistoryHeader] @ map HistoryEntry (rev history) @ [HistoryCount (length history)])"

subsection \<open>A concrete environment\<close>

text \<open>
  An environment and a state on which the functions can be run: a rate table for USD, a
  clock that starts an hour after the rates were updated, and a JSON codec that is
  defined on the few texts and values used below and fails on every other one.
  \<open>demo_config\<close> is a config file whose second field has the wrong type: for such a text
  \<open>json.Unmarshal\<close> stores the fields it can decode and returns the error of the first
  one it cannot.
\<close>

definition demo_rates :: "real ExchangeRateResponse" where
  "demo_rates =
     \<lparr>Base = ''USD'', Date = ''2024-01-01'',
      Rates = [''RUB'' \<mapsto> 90, ''EUR'' \<mapsto> 9 / 10],
      TimeLastUpdated = 1704067200\<rparr>"

definition demo_clock :: "nat \<Rightarrow> Time" where
  "demo_clock n = 1704070800000000000 + int n"

definition demo_record1 :: "real ConversionRecord" where
  "demo_record1 =
     \<lparr>Timestamp = demo_clock 0, FromCurrency = ''USD'', ToCurrency = ''RUB'',
      Amount = 100, Result = 9000, ExchangeRate = 90,
      RateUpdateTime = time_Unix 1704067200\<rparr>"

definition demo_record2 :: "real ConversionRecord" where
  "demo_record2 =
     \<lparr>Timestamp = demo_clock 1, FromCurrency = ''USD'', ToCurrency = ''EUR'',
      Amount = 100, Result = 90, ExchangeRate = 9 / 10,
      RateUpdateTime = time_Unix 1704067200\<rparr>"

definition demo_requests :: "real request list" where
  "demo_requests =
     [(''USD'', ''RUB'', 100, 9000, 90, time_Unix 1704067200),
      (''USD'', ''EUR'', 100, 90, 9 / 10, time_Unix 1704067200)]"

definition demo_config :: string where
  \<open>demo_config = ''{"default_from":"eur","default_to":5}''\<close>

definition demo_env :: "real env" where
  "demo_env =
     \<lparr>ParseFloat = (\<lambda>s. if s = ''100'' then Some 100 else None),
      HttpGet = (\<lambda>url. if url = apiURL @ ''USD'' then Inr (200, Inr ''rates'')
                       else Inr (404, Inr [])),
      UnmarshalRates = (\<lambda>body. if body = ''rates'' then Inr demo_rates
                               else Inl ''unexpected end of JSON input''),
      UnmarshalConfig = (\<lambda>data cfg.
         if data = demo_config
         then (cfg\<lparr>DefaultFrom := ''eur''\<rparr>, Some ''cannot unmarshal number into string'')
         else (cfg, Some ''invalid character'')),
      UnmarshalHistory = (\<lambda>data.
         if data = ''[]'' then ([], None)
         else if data = ''[r1]'' then ([demo_record1], None)
         else if data = ''[r1,r2]'' then ([demo_record1, demo_record2], None)
         else ([], Some ''invalid character'')),
      MarshalHistory = (\<lambda>history.
         if history = [demo_record1] then Inr ''[r1]''
         else if history = [demo_record1, demo_record2] then Inr ''[r1,r2]''
         else Inl ''unsupported value''),
      MarshalOutput = (\<lambda>output. Inr ''{}''),
      Writable = (\<lambda>name. True),
      Now = demo_clock\<rparr>"

definition demo_world :: "real world" where
  "demo_world = \<lparr>files = [historyFile \<mapsto> ''[]''], stdin = [], ticks = 0, out = []\<rparr>"

text \<open>The same environment on a directory that cannot be written.\<close>

definition readonly_env :: "real env" where
  "readonly_env = demo_env\<lparr>Writable := \<lambda>name. False\<rparr>"

text \<open>A state whose history file is no JSON text, and one with the config file above.\<close>

definition garbled_world :: "real world" where
  "garbled_world = \<lparr>files = [historyFile \<mapsto> ''not json''], stdin = [], ticks = 0, out = []\<rparr>"


definition garbled_config_world :: "real world" where
  "garbled_config_world = \<lparr>files = [configFile \<mapsto> ''{not json''], stdin = [], ticks = 0, out = []\<rparr>"


text \<open>A state with three lines waiting on standard input.\<close>

definition interactive_world :: "real world" where
  "interactive_world =
     \<lparr>files = [historyFile \<mapsto> ''[]''], stdin = [''usd'', ''rub'', ''100''], ticks = 0, out = []\<rparr>"

section \<open>Properties of the pure functions\<close>

subsection \<open>Truncating division\<close>















lemma digits_small: "n < 10 \<Longrightarrow> digits n = [digit_char n]"
  by simp

section \<open>Properties of the stateful functions\<close>

subsection \<open>What a call leaves unchanged\<close>

lemma emit_fields [simp]:
  "out (emit e w) = out w @ [e]" "files (emit e w) = files w"
  "ticks (emit e w) = ticks w" "stdin (emit e w) = stdin w"
  by (simp_all add: emit_def)

lemma ReadFile_emit [simp]: "ReadFile (emit e w) name = ReadFile w name"
  by (simp add: ReadFile_def)

lemma saveToHistory_out: "out (saveToHistory env from to amount result rate updateTime w) = out w"
  by (simp add: saveToHistory_def time_Now_def WriteFile_def Let_def split: sum.splits option.splits)

lemma saveToHistory_ticks:
  "ticks (saveToHistory env from to amount result rate updateTime w) = Suc (ticks w)"
  by (simp add: saveToHistory_def time_Now_def WriteFile_def Let_def split: sum.splits option.splits)

lemma saveToHistory_stdin:
  "stdin (saveToHistory env from to amount result rate updateTime w) = stdin w"
  by (simp add: saveToHistory_def time_Now_def WriteFile_def Let_def split: sum.splits option.splits)

text \<open>One append, when the encoding and the write succeed.\<close>

lemma saveToHistory_files:
  assumes "MarshalHistory env
             ((case ReadFile w historyFile of None \<Rightarrow> [] | Some data \<Rightarrow> fst (UnmarshalHistory env data))
              @ [\<lparr>Timestamp = Now env (ticks w), FromCurrency = from, ToCurrency = to,
                  Amount = amount, Result = result, ExchangeRate = rate,
                  RateUpdateTime = updateTime\<rparr>]) = Inr data1"
    and "Writable env historyFile"
  shows "files (saveToHistory env from to amount result rate updateTime w)
         = (files w)(historyFile \<mapsto> data1)"
  using assms
  by (simp add: saveToHistory_def time_Now_def WriteFile_def ReadFile_def Let_def)

lemma saveToHistory_unwritable:
  "\<not> Writable env historyFile \<Longrightarrow>
   files (saveToHistory env from to amount result rate updateTime w) = files w"
  by (simp add: saveToHistory_def time_Now_def WriteFile_def Let_def split: sum.splits option.splits)

lemma saveAll_out: "out (saveAll env reqs w) = out w"
  by (induction env reqs w rule: saveAll.induct) (simp_all add: saveToHistory_out)

lemma saveAll_ticks: "ticks (saveAll env reqs w) = ticks w + length reqs"
  by (induction env reqs w rule: saveAll.induct) (simp_all add: saveToHistory_ticks)

lemma showEntries_eq:
  "- 1 \<le> i \<Longrightarrow> i < int (length history) \<Longrightarrow>
   showEntries history i w
     = w\<lparr>out := out w @ map HistoryEntry (rev (take (nat (i + 1)) history))\<rparr>"
proof (induction history i w rule: showEntries.induct)
  case (1 history i w)
  show ?case
  proof (cases "0 \<le> i")
    case False
    with "1.prems" have "i = - 1" by simp
    then show ?thesis
      by (subst showEntries.simps) simp
  next
    case True
    have n: "nat i < length history"
      using True "1.prems" by simp
    have tk: "take (nat (i + 1)) history = take (nat i) history @ [history ! nat i]"
      using True n by (simp add: nat_add_distrib take_Suc_conv_app_nth)
    have "showEntries history i w
        = showEntries history (i - 1) (emit (HistoryEntry (history ! nat i)) w)"
      using True by (subst showEntries.simps) simp
    also have "\<dots> = (emit (HistoryEntry (history ! nat i)) w)
        \<lparr>out := out (emit (HistoryEntry (history ! nat i)) w)
                 @ map HistoryEntry (rev (take (nat (i - 1 + 1)) history))\<rparr>"
      using "1.IH" [OF True] True "1.prems" by simp
    finally show ?thesis
      by (simp add: tk emit_def)
  qed
qed

lemma showHistory_listing:
  assumes "ReadFile w historyFile = Some data" "UnmarshalHistory env data = (history, None)"
  shows "showHistory env w = w\<lparr>out := out w @ listing history\<rparr>"
proof (cases "history = []")
  case True
  with assms show ?thesis
    by (simp add: showHistory_def listing_def emit_def)
next
  case False
  then have len: "- 1 \<le> int (length history) - 1" "int (length history) - 1 < int (length history)"
    by simp_all
  show ?thesis
    using assms False
    by (simp add: showHistory_def listing_def Let_def showEntries_eq [OF len] emit_def)
qed

subsection \<open>The history store\<close>

lemma saveAll_read_back:
  "ReadFile w historyFile = Some data0 \<Longrightarrow>
   UnmarshalHistory env data0 = (prior, None) \<Longrightarrow>
   Writable env historyFile \<Longrightarrow>
   (\<forall>k. 1 \<le> k \<and> k \<le> length reqs \<longrightarrow>
      (\<exists>data. MarshalHistory env (prior @ take k (newRecords env (ticks w) reqs)) = Inr data
         \<and> UnmarshalHistory env data = (prior @ take k (newRecords env (ticks w) reqs), None))) \<Longrightarrow>
   \<exists>data. ReadFile (saveAll env reqs w) historyFile = Some data
      \<and> UnmarshalHistory env data = (prior @ newRecords env (ticks w) reqs, None)"
proof (induction reqs arbitrary: w data0 prior)
  case Nil
  then show ?case by simp
next
  case (Cons req reqs)
  obtain "from" to amount result rate updateTime
    where req: "req = (from, to, amount, result, rate, updateTime)"
    by (cases req) auto
  let ?rec = "\<lparr>Timestamp = Now env (ticks w), FromCurrency = from, ToCurrency = to,
               Amount = amount, Result = result, ExchangeRate = rate,
               RateUpdateTime = updateTime\<rparr>"
  let ?w1 = "saveToHistory env from to amount result rate updateTime w"
  have news: "newRecords env (ticks w) (req # reqs) = ?rec # newRecords env (Suc (ticks w)) reqs"
    by (simp add: req)
  from Cons.prems(4) [rule_format, of 1] obtain data1
    where m1: "MarshalHistory env (prior @ [?rec]) = Inr data1"
      and u1: "UnmarshalHistory env data1 = (prior @ [?rec], None)"
    by (auto simp: news)
  have files1: "files ?w1 = (files w)(historyFile \<mapsto> data1)"
    using m1 Cons.prems(1,2,3) by (intro saveToHistory_files) simp_all
  then have read1: "ReadFile ?w1 historyFile = Some data1"
    by (simp add: ReadFile_def)
  have ticks1: "ticks ?w1 = Suc (ticks w)"
    by (rule saveToHistory_ticks)
  have codec1: "\<forall>k. 1 \<le> k \<and> k \<le> length reqs \<longrightarrow>
      (\<exists>data. MarshalHistory env ((prior @ [?rec]) @ take k (newRecords env (ticks ?w1) reqs)) = Inr data
         \<and> UnmarshalHistory env data = ((prior @ [?rec]) @ take k (newRecords env (ticks ?w1) reqs), None))"
  proof (intro allI impI)
    fix k assume k: "1 \<le> k \<and> k \<le> length reqs"
    then have "1 \<le> Suc k \<and> Suc k \<le> length (req # reqs)" by simp
    from Cons.prems(4) [rule_format, OF this] show
      "\<exists>data. MarshalHistory env ((prior @ [?rec]) @ take k (newRecords env (ticks ?w1) reqs)) = Inr data
         \<and> UnmarshalHistory env data = ((prior @ [?rec]) @ take k (newRecords env (ticks ?w1) reqs), None)"
      by (simp add: news ticks1)
  qed
  from Cons.IH [OF read1 u1 Cons.prems(3) codec1]
  show ?case
    by (simp add: req ticks1)
qed

lemma saveToHistory_fresh:
  assumes "ReadFile v historyFile = None
           \<or> (\<exists>data. ReadFile v historyFile = Some data \<and> fst (UnmarshalHistory env data) = [])"
    and "MarshalHistory env
           [\<lparr>Timestamp = Now env (ticks v), FromCurrency = from, ToCurrency = to,
             Amount = amount, Result = result, ExchangeRate = rate,
             RateUpdateTime = updateTime\<rparr>] = Inr data1"
    and "Writable env historyFile"
  shows "ReadFile (saveToHistory env from to amount result rate updateTime v) historyFile = Some data1"
proof -
  have "(case ReadFile v historyFile of None \<Rightarrow> []
         | Some data \<Rightarrow> fst (UnmarshalHistory env data)) = []"
    using assms(1) by auto
  then have "files (saveToHistory env from to amount result rate updateTime v)
      = (files v)(historyFile \<mapsto> data1)"
    using assms(2,3) by (intro saveToHistory_files) simp_all
  then show ?thesis
    by (simp add: ReadFile_def)
qed

lemma demo_newRecords: "newRecords demo_env 0 demo_requests = [demo_record1, demo_record2]"
  by (simp add: demo_requests_def demo_record1_def demo_record2_def demo_env_def)

subsection \<open>Letter case\<close>

lemma upper_char_not_lower: "upper_char c \<notin> set lower_letters"
  by (simp add: upper_char_def lower_letters_def upper_letters_def)

lemma lower_char_not_upper: "lower_char c \<notin> set upper_letters"
  by (simp add: lower_char_def lower_letters_def upper_letters_def)

lemma upper_char_fixed: "c \<notin> set lower_letters \<Longrightarrow> upper_char c = c"
  by (simp add: upper_char_def lower_letters_def upper_letters_def)

lemma lower_char_fixed: "c \<notin> set upper_letters \<Longrightarrow> lower_char c = c"
  by (simp add: lower_char_def lower_letters_def upper_letters_def)

lemma ToUpper_no_lower: "set (ToUpper s) \<inter> set lower_letters = {}"
  using upper_char_not_lower by (auto simp: ToUpper_def)

lemma ToLower_no_upper: "set (ToLower s) \<inter> set upper_letters = {}"
  using lower_char_not_upper by (auto simp: ToLower_def)

lemma ToUpper_fixed: "set s \<inter> set lower_letters = {} \<Longrightarrow> ToUpper s = s"
  unfolding ToUpper_def by (induction s) (simp_all add: upper_char_fixed)

lemma ToLower_fixed: "set s \<inter> set upper_letters = {} \<Longrightarrow> ToLower s = s"
  unfolding ToLower_def by (induction s) (simp_all add: lower_char_fixed)

lemma ToUpper_idem: "ToUpper (ToUpper s) = ToUpper s"
  by (rule ToUpper_fixed [OF ToUpper_no_lower])

lemma ToLower_idem: "ToLower (ToLower s) = ToLower s"
  by (rule ToLower_fixed [OF ToLower_no_upper])

lemma ToUpper_USD: "ToUpper ''USD'' = ''USD''" and ToUpper_RUB: "ToUpper ''RUB'' = ''RUB''"
  and ToLower_text: "ToLower ''text'' = ''text''"
  by (simp_all add: ToUpper_def ToLower_def upper_char_def lower_char_def
      lower_letters_def upper_letters_def)

subsection \<open>The config loader\<close>

lemma loadConfig_unreadable:
  "ReadFile w configFile = None \<Longrightarrow>
   loadConfig env w = \<lparr>DefaultFrom = ''USD'', DefaultTo = ''RUB'', OutputFormat = ''text''\<rparr>"
  by (simp add: loadConfig_def)

lemma loadConfig_decoded:
  "ReadFile w configFile = Some data \<Longrightarrow>
   loadConfig env w =
     (let cfg1 = fst (UnmarshalConfig env data
                        \<lparr>DefaultFrom = ''USD'', DefaultTo = ''RUB'', OutputFormat = ''text''\<rparr>)
      in \<lparr>DefaultFrom = ToUpper (DefaultFrom cfg1), DefaultTo = ToUpper (DefaultTo cfg1),
          OutputFormat = ToLower (OutputFormat cfg1)\<rparr>)"
  by (simp add: loadConfig_def Let_def)



subsection \<open>Listing the history\<close>

lemma showHistory_missing:
  "ReadFile w historyFile = None \<Longrightarrow> showHistory env w = emit RedHistoryMissing w"
  by (simp add: showHistory_def)

lemma showHistory_unreadable:
  "ReadFile w historyFile = Some data \<Longrightarrow> UnmarshalHistory env data = (history, Some err) \<Longrightarrow>
   showHistory env w = emit (RedHistoryUnreadable err) w"
  by (simp add: showHistory_def)

lemma main_history: "main env (prog # ''--history'' # rest) w = (0, showHistory env w)"
  by (simp add: main_def)

subsection \<open>The presenters\<close>

lemma outputError_fields [simp]:
  "out (outputError msg asJSON w) = out w @ [ErrorPayload msg asJSON]"
  "files (outputError msg asJSON w) = files w"
  "ticks (outputError msg asJSON w) = ticks w"
  by (simp_all add: outputError_def)



lemma outputJSON_cases:
  "(\<exists>err. MarshalOutput env
            \<lparr>Success = True,
             Fields = \<lparr>Timestamp = Now env (ticks w), FromCurrency = from, ToCurrency = to,
                       Amount = amount, Result = result, ExchangeRate = rate,
                       RateUpdateTime = updateTime\<rparr>\<rparr> = Inl err
      \<and> outputJSON env from to amount result rate updateTime w
          = Exit 1 (w\<lparr>ticks := Suc (ticks w), out := out w @ [ErrorPayload (EncodeFailed err) True]\<rparr>))
   \<or> (\<exists>data. outputJSON env from to amount result rate updateTime w
          = Ret () (w\<lparr>ticks := Suc (ticks w), out := out w @ [ResultJSON data]\<rparr>))"
  by (cases "MarshalOutput env
            \<lparr>Success = True,
             Fields = \<lparr>Timestamp = Now env (ticks w), FromCurrency = from, ToCurrency = to,
                       Amount = amount, Result = result, ExchangeRate = rate,
                       RateUpdateTime = updateTime\<rparr>\<rparr>")
     (auto simp: outputJSON_def time_Now_def outputError_def emit_def)



subsection \<open>The loop over the targets\<close>

lemma convertTargets_blank:
  "TrimSpace t = [] \<Longrightarrow>
   convertTargets env j c amount from rates updateTime (t # ts) w
     = convertTargets env j c amount from rates updateTime ts w"
  by simp

lemma convertTargets_missing:
  "TrimSpace t \<noteq> [] \<Longrightarrow> Rates rates (TrimSpace t) = None \<Longrightarrow>
   convertTargets env j c amount from rates updateTime (t # ts) w
     = convertTargets env j c amount from rates updateTime ts
         (if j \<or> c then outputError (ConvertFailed (errorf_not_found (TrimSpace t))) j w
          else emit (RedConvert (TrimSpace t) (errorf_not_found (TrimSpace t))) w)"
  by (simp add: convertCurrency_def Let_def)

lemma convertTargets_found:
  "TrimSpace t \<noteq> [] \<Longrightarrow> Rates rates (TrimSpace t) = Some rate \<Longrightarrow>
   convertTargets env j c amount from rates updateTime (t # ts) w
     = (let w1 = saveToHistory env from (TrimSpace t) amount (amount * rate) rate updateTime w
        in if j then
             (case outputJSON env from (TrimSpace t) amount (amount * rate) rate updateTime w1 of
                Exit code w2 \<Rightarrow> Exit code w2
              | Ret u w2 \<Rightarrow> convertTargets env j c amount from rates updateTime ts w2)
           else if c then
             convertTargets env j c amount from rates updateTime ts
               (outputCSV env from (TrimSpace t) amount (amount * rate) rate updateTime w1)
           else
             convertTargets env j c amount from rates updateTime ts
               (printResult env amount from (amount * rate) (TrimSpace t) rates w1))"
  by (simp add: convertCurrency_def map_index_def Let_def)

text \<open>From here on a step of the loop is one of the three lemmas above.\<close>

declare convertTargets.simps(2) [simp del]





text \<open>In JSON mode the loop prints JSON results and JSON error payloads only.\<close>

lemma convertTargets_json_style:
  "\<exists>es. out (world_of (convertTargets env True c amount from rates updateTime ts w)) = out w @ es
      \<and> list_all json_style es"
proof (induction ts arbitrary: w)
  case Nil
  then show ?case by simp
next
  case (Cons t ts)
  consider (blank) "TrimSpace t = []"
    | (missing) "TrimSpace t \<noteq> []" "Rates rates (TrimSpace t) = None"
    | (found) rate where "TrimSpace t \<noteq> []" "Rates rates (TrimSpace t) = Some rate"
    by (cases "Rates rates (TrimSpace t)") auto
  then show ?case
  proof cases
    case blank
    show ?thesis
      unfolding convertTargets_blank [OF blank] by (rule Cons.IH)
  next
    case missing
    let ?w' = "outputError (ConvertFailed (errorf_not_found (TrimSpace t))) True w"
    from Cons.IH [of ?w'] obtain es
      where "out (world_of (convertTargets env True c amount from rates updateTime ts ?w'))
               = out ?w' @ es" "list_all json_style es"
      by blast
    then have "out (world_of (convertTargets env True c amount from rates updateTime (t # ts) w))
        = out w @ (ErrorPayload (ConvertFailed (errorf_not_found (TrimSpace t))) True # es)
        \<and> list_all json_style (ErrorPayload (ConvertFailed (errorf_not_found (TrimSpace t))) True # es)"
      unfolding convertTargets_missing [OF missing] by simp
    then show ?thesis
      by blast
  next
    case found
    let ?w1 = "saveToHistory env from (TrimSpace t) amount (amount * rate) rate updateTime w"
    have o1: "out ?w1 = out w"
      by (rule saveToHistory_out)
    from outputJSON_cases [of env ?w1 "from" "TrimSpace t" amount "amount * rate" rate updateTime]
    show ?thesis
    proof (elim disjE exE conjE)
      fix err
      assume "outputJSON env from (TrimSpace t) amount (amount * rate) rate updateTime ?w1
            = Exit 1 (?w1\<lparr>ticks := Suc (ticks ?w1),
                          out := out ?w1 @ [ErrorPayload (EncodeFailed err) True]\<rparr>)"
      then have "out (world_of (convertTargets env True c amount from rates updateTime (t # ts) w))
          = out w @ [ErrorPayload (EncodeFailed err) True]
          \<and> list_all json_style [ErrorPayload (EncodeFailed err) True]"
        unfolding convertTargets_found [OF found] Let_def by (simp add: o1)
      then show ?thesis
        by blast
    next
      fix data
      let ?w2 = "?w1\<lparr>ticks := Suc (ticks ?w1), out := out ?w1 @ [ResultJSON data]\<rparr>"
      assume j: "outputJSON env from (TrimSpace t) amount (amount * rate) rate updateTime ?w1
            = Ret () ?w2"
      from Cons.IH [of ?w2] obtain es
        where "out (world_of (convertTargets env True c amount from rates updateTime ts ?w2))
               = out ?w2 @ es" "list_all json_style es"
        by blast
      then have "out (world_of (convertTargets env True c amount from rates updateTime (t # ts) w))
          = out w @ (ResultJSON data # es) \<and> list_all json_style (ResultJSON data # es)"
        unfolding convertTargets_found [OF found] Let_def by (simp add: j o1)
      then show ?thesis
        by blast
    qed
  qed
qed

subsection \<open>Reading the parameters\<close>

lemma Scanln_fields:
  "out (snd (Scanln w)) = out w" "files (snd (Scanln w)) = files w" "ticks (snd (Scanln w)) = ticks w"
  by (simp_all add: Scanln_def split: list.splits)

lemma getInput_out: "out (snd (getInput p w)) = out w @ [Prompt p]"
  by (simp add: getInput_def Scanln_fields split_beta)

lemma getAmount_cases:
  "(\<exists>w'. getAmount env w = Exit 1 w' \<and> out w' = out w @ [Prompt AskAmount, RedBadAmount])
   \<or> (\<exists>amount w'. getAmount env w = Ret amount w' \<and> out w' = out w @ [Prompt AskAmount])"
  by (cases "ParseFloat env (fst (Scanln (emit (Prompt AskAmount) w)))")
     (simp_all add: getAmount_def split_beta Scanln_fields)

lemma readParams_three:
  "length args = 3 \<Longrightarrow>
   readParams env cfg prog j c args w
     = (case ParseFloat env (args ! 2) of
          None \<Rightarrow> Exit 1 (if j \<or> c then outputError BadAmount j w else emit RedBadAmount w)
        | Some amount \<Rightarrow> Ret (ToUpper (args ! 0), ToUpper (args ! 1), amount) w)"
  by (cases "ParseFloat env (args ! 2)") (simp_all add: readParams_def)

lemma readParams_none:
  "readParams env cfg prog j c [] w
     = (let (fromInput, w1) = getInput (AskFrom (DefaultFrom cfg)) w;
            (toInput, w2) = getInput (AskTo (DefaultTo cfg)) w1
        in case getAmount env w2 of
             Exit code w3 \<Rightarrow> Exit code w3
           | Ret amount w3 \<Rightarrow>
               Ret (if fromInput = [] then DefaultFrom cfg else fromInput,
                    if toInput = [] then DefaultTo cfg else toInput, amount) w3)"
  by (simp add: readParams_def Let_def split_beta)

lemma readParams_other:
  "length args \<noteq> 3 \<Longrightarrow> length args \<noteq> 0 \<Longrightarrow>
   readParams env cfg prog j c args w
     = Exit 1 (if j \<or> c then outputError BadArgCount j w else emit (RedUsage prog) w)"
  by (simp add: readParams_def)

lemma readParams_prompts:
  "\<exists>es. out (world_of (readParams env cfg prog j c [] w))
           = out w @ [Prompt (AskFrom (DefaultFrom cfg)), Prompt (AskTo (DefaultTo cfg)),
                      Prompt AskAmount] @ es
      \<and> (es = [] \<or> es = [RedBadAmount])"
proof -
  let ?w1 = "snd (getInput (AskFrom (DefaultFrom cfg)) w)"
  let ?w2 = "snd (getInput (AskTo (DefaultTo cfg)) ?w1)"
  have o2: "out ?w2 = out w @ [Prompt (AskFrom (DefaultFrom cfg)), Prompt (AskTo (DefaultTo cfg))]"
    by (simp add: getInput_out)
  from getAmount_cases [of env ?w2] show ?thesis
  proof (elim disjE exE conjE)
    fix w'
    assume "getAmount env ?w2 = Exit 1 w'" "out w' = out ?w2 @ [Prompt AskAmount, RedBadAmount]"
    then show ?thesis
      by (simp add: readParams_none split_beta o2)
  next
    fix amount w'
    assume "getAmount env ?w2 = Ret amount w'" "out w' = out ?w2 @ [Prompt AskAmount]"
    then show ?thesis
      by (simp add: readParams_none split_beta o2)
  qed
qed


lemma readParams_json_style:
  "\<exists>es. out (world_of (readParams env cfg prog True c args w)) = out w @ es
      \<and> list_all json_style es"
proof -
  consider (three) "length args = 3" | (none) "args = []"
    | (other) "length args \<noteq> 3" "length args \<noteq> 0"
    by auto
  then show ?thesis
  proof cases
    case three
    then show ?thesis
      by (cases "ParseFloat env (args ! 2)") (simp_all add: readParams_three)
  next
    case none
    from readParams_prompts [of env cfg prog True c w] obtain es
      where "out (world_of (readParams env cfg prog True c [] w))
           = out w @ [Prompt (AskFrom (DefaultFrom cfg)), Prompt (AskTo (DefaultTo cfg)),
                      Prompt AskAmount] @ es" "es = [] \<or> es = [RedBadAmount]"
      by blast
    then have "out (world_of (readParams env cfg prog True c args w))
           = out w @ ([Prompt (AskFrom (DefaultFrom cfg)), Prompt (AskTo (DefaultTo cfg)),
                      Prompt AskAmount] @ es)
        \<and> list_all json_style ([Prompt (AskFrom (DefaultFrom cfg)), Prompt (AskTo (DefaultTo cfg)),
                      Prompt AskAmount] @ es)"
      unfolding none by auto
    then show ?thesis
      by blast
  next
    case other
    then show ?thesis
      by (simp add: readParams_other)
  qed
qed

subsection \<open>Fetching and converting\<close>


lemma convertAndPresent_json_style:
  "\<exists>es. out (snd (convertAndPresent env True c params w)) = out w @ es \<and> list_all json_style es"
proof -
  obtain "from" toRaw amount where p: "params = (from, toRaw, amount)"
    by (cases params) auto
  show ?thesis
  proof (cases "getExchangeRates env from")
    case (Inl err)
    with p show ?thesis
      by (simp add: convertAndPresent_def Let_def)
  next
    case (Inr rates)
    from convertTargets_json_style [of env c amount "from" rates "time_Unix (TimeLastUpdated rates)"
        "Split_comma toRaw" w]
    obtain es where "out (world_of (convertTargets env True c amount from rates
        (time_Unix (TimeLastUpdated rates)) (Split_comma toRaw) w)) = out w @ es"
      "list_all json_style es"
      by blast
    with p Inr show ?thesis
      by (auto simp: convertAndPresent_def Let_def split: run.splits)
  qed
qed

subsection \<open>The flags\<close>

lemma stripFlags_filter:
  "0 \<le> i \<Longrightarrow>
   stripFlags i args j c =
     Some (take (nat i) args @ filter (\<lambda>a. a \<noteq> ''--json'' \<and> a \<noteq> ''--csv'') (drop (nat i) args),
           j \<or> ''--json'' \<in> set (drop (nat i) args),
           c \<or> ''--csv'' \<in> set (drop (nat i) args))"
proof (induction i args j c rule: stripFlags.induct)
  case (1 i args j c)
  let ?n = "nat i"
  let ?removed = "take ?n args @ drop (?n + 1) args"
  show ?case
  proof (cases "i < int (length args)")
    case False
    with "1.prems" show ?thesis
      by (subst stripFlags.simps) simp
  next
    case True
    with "1.prems" have n: "?n < length args" by simp
    have split: "drop ?n args = args ! ?n # drop (Suc ?n) args"
      using n by (simp add: Cons_nth_drop_Suc)
    have tk: "take ?n ?removed = take ?n args"
      using n by simp
    have dr: "drop ?n ?removed = drop (Suc ?n) args"
      using n by simp
    have nxt: "nat (i + 1) = Suc ?n"
      using "1.prems" by simp
    have tk1: "take (Suc ?n) args = take ?n args @ [args ! ?n]"
      using n by (simp add: take_Suc_conv_app_nth)
    consider (json) "args ! ?n = ''--json''"
      | (csv) "args ! ?n \<noteq> ''--json''" "args ! ?n = ''--csv''"
      | (other) "args ! ?n \<noteq> ''--json''" "args ! ?n \<noteq> ''--csv''"
      by blast
    then show ?thesis
    proof cases
      case json
      have step: "stripFlags i args j c = stripFlags i ?removed True c"
        using True "1.prems" json by (subst stripFlags.simps) simp
      have ih: "stripFlags i ?removed True c =
          Some (take ?n ?removed @ filter (\<lambda>a. a \<noteq> ''--json'' \<and> a \<noteq> ''--csv'') (drop ?n ?removed),
           True \<or> ''--json'' \<in> set (drop ?n ?removed),
           c \<or> ''--csv'' \<in> set (drop ?n ?removed))"
        using "1.IH"(1) [OF True _ json] "1.prems" by simp
      show ?thesis
        unfolding step ih tk dr split using json by simp
    next
      case csv
      have step: "stripFlags i args j c = stripFlags i ?removed j True"
        using True "1.prems" csv by (subst stripFlags.simps) simp
      have ih: "stripFlags i ?removed j True =
          Some (take ?n ?removed @ filter (\<lambda>a. a \<noteq> ''--json'' \<and> a \<noteq> ''--csv'') (drop ?n ?removed),
           j \<or> ''--json'' \<in> set (drop ?n ?removed),
           True \<or> ''--csv'' \<in> set (drop ?n ?removed))"
        using "1.IH"(2) [OF True _ csv] "1.prems" by simp
      show ?thesis
        unfolding step ih tk dr split using csv by simp
    next
      case other
      have step: "stripFlags i args j c = stripFlags (i + 1) args j c"
        using True "1.prems" other by (subst stripFlags.simps) simp
      have ih: "stripFlags (i + 1) args j c =
          Some (take (Suc ?n) args @ filter (\<lambda>a. a \<noteq> ''--json'' \<and> a \<noteq> ''--csv'') (drop (Suc ?n) args),
           j \<or> ''--json'' \<in> set (drop (Suc ?n) args),
           c \<or> ''--csv'' \<in> set (drop (Suc ?n) args))"
        using "1.IH"(3) [OF True _ other] "1.prems" by (simp add: nxt)
      show ?thesis
        unfolding step ih tk1 split using other by auto
    qed
  qed
qed

lemma stripFlags_all:
  "stripFlags 0 args False False =
     Some (filter (\<lambda>a. a \<noteq> ''--json'' \<and> a \<noteq> ''--csv'') args,
           ''--json'' \<in> set args, ''--csv'' \<in> set args)"
  using stripFlags_filter [of 0 args False False] by simp

subsection \<open>The program\<close>

lemma chooseFormat_flags:
  "chooseFormat cfg True csvFlag = (True, csvFlag)"
  "chooseFormat cfg jsonFlag True = (jsonFlag, True)"
  by (simp_all add: chooseFormat_def)

lemma main_unfold:
  assumes "rest = [] \<or> hd rest \<noteq> ''--history''"
  shows "main env (prog # rest) w =
     (let cfg = loadConfig env w;
          args = filter (\<lambda>a. a \<noteq> ''--json'' \<and> a \<noteq> ''--csv'') rest;
          jsonOutput = fst (chooseFormat cfg (''--json'' \<in> set rest) (''--csv'' \<in> set rest));
          csvOutput = snd (chooseFormat cfg (''--json'' \<in> set rest) (''--csv'' \<in> set rest));
          w1 = (if \<not> jsonOutput \<and> \<not> csvOutput then printHeader w else w)
      in case readParams env cfg prog jsonOutput csvOutput args w1 of
           Exit code w2 \<Rightarrow> (code, w2)
         | Ret params w2 \<Rightarrow> convertAndPresent env jsonOutput csvOutput params w2)"
proof -
  have nh: "(length (prog # rest) > 1 \<and> (prog # rest) ! 1 = ''--history'') = False"
    using assms by (cases rest) auto
  have dr: "drop 1 (prog # rest) = rest" "(prog # rest) ! 0 = prog" "(prog # rest = []) = False"
    by simp_all
  show ?thesis
    unfolding main_def nh dr stripFlags_all Let_def
    by (simp add: split_beta split: run.splits)
qed


lemma main_json_style:
  assumes "rest = [] \<or> hd rest \<noteq> ''--history''" and "''--json'' \<in> set rest"
  shows "\<exists>es. out (snd (main env (prog # rest) w)) = out w @ es \<and> list_all json_style es"
proof -
  let ?cfg = "loadConfig env w"
  let ?args = "filter (\<lambda>a. a \<noteq> ''--json'' \<and> a \<noteq> ''--csv'') rest"
  let ?c = "''--csv'' \<in> set rest"
  have fmt: "chooseFormat ?cfg (''--json'' \<in> set rest) ?c = (True, ?c)"
    using assms(2) by (simp add: chooseFormat_flags)
  from readParams_json_style [of env ?cfg prog ?c ?args w] obtain es
    where es: "out (world_of (readParams env ?cfg prog True ?c ?args w)) = out w @ es"
      "list_all json_style es"
    by blast
  show ?thesis
  proof (cases "readParams env ?cfg prog True ?c ?args w")
    case (Exit code w2)
    then have "main env (prog # rest) w = (code, w2)"
      unfolding main_unfold [OF assms(1)] Let_def fmt by simp
    with es Exit show ?thesis
      by auto
  next
    case (Ret params w2)
    then have m: "main env (prog # rest) w = convertAndPresent env True ?c params w2"
      unfolding main_unfold [OF assms(1)] Let_def fmt by simp
    from convertAndPresent_json_style [of env ?c params w2] obtain fs
      where "out (snd (convertAndPresent env True ?c params w2)) = out w2 @ fs"
        "list_all json_style fs"
      by blast
    with es Ret have "out (snd (main env (prog # rest) w)) = out w @ (es @ fs)
        \<and> list_all json_style (es @ fs)"
      unfolding m by simp
    then show ?thesis
      by blast
  qed
qed

lemma main_wrong_count:
  assumes "rest = [] \<or> hd rest \<noteq> ''--history''"
    and "length (filter (\<lambda>a. a \<noteq> ''--json'' \<and> a \<noteq> ''--csv'') rest) \<noteq> 0"
    and "length (filter (\<lambda>a. a \<noteq> ''--json'' \<and> a \<noteq> ''--csv'') rest) \<noteq> 3"
  shows "fst (main env (prog # rest) w) = 1"
  unfolding main_unfold [OF assms(1)] Let_def
  by (simp add: readParams_other [OF assms(3) assms(2)])

subsection \<open>Runs in the concrete environment\<close>

lemma demo_lookup:
  "Rates demo_rates ''RUB'' = Some 90" "Rates demo_rates ''EUR'' = Some (9 / 10)"
  "Rates demo_rates ''XXX'' = None"
  by (simp_all add: demo_rates_def)

lemma demo_trim:
  "TrimSpace ''XXX'' = ''XXX''" "TrimSpace ''RUB'' = ''RUB''" "TrimSpace ''EUR'' = ''EUR''"
  by (simp_all add: TrimSpace_def isSpace_def)






lemma main_three:
  assumes "rest = [] \<or> hd rest \<noteq> ''--history''"
    and "length (filter (\<lambda>a. a \<noteq> ''--json'' \<and> a \<noteq> ''--csv'') rest) = 3"
  shows "main env (prog # rest) w =
     (let cfg = loadConfig env w;
          args = filter (\<lambda>a. a \<noteq> ''--json'' \<and> a \<noteq> ''--csv'') rest;
          jsonOutput = fst (chooseFormat cfg (''--json'' \<in> set rest) (''--csv'' \<in> set rest));
          csvOutput = snd (chooseFormat cfg (''--json'' \<in> set rest) (''--csv'' \<in> set rest));
          w1 = (if \<not> jsonOutput \<and> \<not> csvOutput then printHeader w else w)
      in case ParseFloat env (args ! 2) of
           None \<Rightarrow>
             (1, if jsonOutput \<or> csvOutput then outputError BadAmount jsonOutput w1
                 else emit RedBadAmount w1)
         | Some amount \<Rightarrow>
             convertAndPresent env jsonOutput csvOutput
               (ToUpper (args ! 0), ToUpper (args ! 1), amount) w1)"
  unfolding main_unfold [OF assms(1)] Let_def readParams_three [OF assms(2)]
  by (simp split: option.splits)

lemma main_interactive:
  assumes "rest = [] \<or> hd rest \<noteq> ''--history''"
    and "filter (\<lambda>a. a \<noteq> ''--json'' \<and> a \<noteq> ''--csv'') rest = []"
  shows "main env (prog # rest) w =
     (let cfg = loadConfig env w;
          jsonOutput = fst (chooseFormat cfg (''--json'' \<in> set rest) (''--csv'' \<in> set rest));
          csvOutput = snd (chooseFormat cfg (''--json'' \<in> set rest) (''--csv'' \<in> set rest));
          w1 = (if \<not> jsonOutput \<and> \<not> csvOutput then printHeader w else w);
          (fromInput, w2) = getInput (AskFrom (DefaultFrom cfg)) w1;
          (toInput, w3) = getInput (AskTo (DefaultTo cfg)) w2
      in case getAmount env w3 of
           Exit code w4 \<Rightarrow> (code, w4)
         | Ret amount w4 \<Rightarrow>
             convertAndPresent env jsonOutput csvOutput
               (if fromInput = [] then DefaultFrom cfg else fromInput,
                if toInput = [] then DefaultTo cfg else toInput, amount) w4)"
  unfolding main_unfold [OF assms(1)] assms(2) Let_def readParams_none
  by (simp add: split_beta split: run.splits)

lemma demo_config_defaults:
  "loadConfig demo_env demo_world = \<lparr>DefaultFrom = ''USD'', DefaultTo = ''RUB'', OutputFormat = ''text''\<rparr>"
  "loadConfig demo_env interactive_world
     = \<lparr>DefaultFrom = ''USD'', DefaultTo = ''RUB'', OutputFormat = ''text''\<rparr>"
  by (simp_all add: loadConfig_def ReadFile_def demo_world_def interactive_world_def
      configFile_def historyFile_def)

lemma demo_upper: "ToUpper ''usd'' = ''USD''" "ToUpper ''rub'' = ''RUB''"
  by (simp_all add: ToUpper_def upper_char_def lower_letters_def upper_letters_def)

lemma TimeLastUpdated_demo: "TimeLastUpdated demo_rates = 1704067200"
  by (simp add: demo_rates_def)

lemma demo_fetch: "getExchangeRates demo_env ''USD'' = Inr demo_rates"
  by (simp add: getExchangeRates_def demo_env_def)

lemma demo_run_both_flags:
  "main demo_env [''converter'', ''--csv'', ''usd'', ''--json'', ''rub'', ''100''] demo_world
   = (0, demo_world\<lparr>files := [historyFile \<mapsto> ''[r1]''], ticks := 2, out := [ResultJSON ''{}'']\<rparr>)"
proof -
  have "convertTargets demo_env True True 100 ''USD'' demo_rates
          (time_Unix (TimeLastUpdated demo_rates)) [''RUB''] demo_world
      = Ret () (demo_world\<lparr>files := [historyFile \<mapsto> ''[r1]''], ticks := 2,
                  out := [ResultJSON ''{}'']\<rparr>)"
    by (simp add: convertTargets_found demo_lookup demo_trim
        saveToHistory_def outputJSON_def time_Now_def ReadFile_def WriteFile_def demo_env_def
        demo_world_def demo_record1_def demo_clock_def emit_def Let_def demo_rates_def)
  moreover have "ParseFloat demo_env ''100'' = Some 100"
    by (simp add: demo_env_def)
  ultimately show ?thesis
    by (simp add: main_three Let_def chooseFormat_def demo_upper convertAndPresent_def demo_fetch)
qed

lemma demo_run_two_arguments:
  "main demo_env [''converter'', ''--json'', ''usd'', ''rub''] demo_world
   = (1, demo_world\<lparr>out := [ErrorPayload BadArgCount True]\<rparr>)"
  by (simp add: main_unfold Let_def chooseFormat_def readParams_other outputError_def emit_def
      demo_world_def)

lemma demo_run_interactive:
  "main demo_env [''converter''] interactive_world
   = (0, interactive_world\<lparr>files := [historyFile \<mapsto> ''[r1]''], stdin := [], ticks := 2,
        out := [Header, Prompt (AskFrom ''USD''), Prompt (AskTo ''RUB''), Prompt AskAmount,
                Loading,
                ResultText 100 ''USD'' 9000 ''RUB'' (Some 90) (time_Unix 1704067200)
                  (formatTimeAgo (60 * Minute + 1))]\<rparr>)"
proof -
  let ?w3 = "interactive_world\<lparr>stdin := [],
      out := [Header, Prompt (AskFrom ''USD''), Prompt (AskTo ''RUB''), Prompt AskAmount]\<rparr>"
  have inputs: "readParams demo_env
        \<lparr>DefaultFrom = ''USD'', DefaultTo = ''RUB'', OutputFormat = ''text''\<rparr> ''converter''
        False False [] (printHeader interactive_world)
      = Ret (''USD'', ''RUB'', 100) ?w3"
    by (simp add: readParams_none getInput_def getAmount_def Scanln_def printHeader_def emit_def
        interactive_world_def demo_upper demo_trim TrimSpace_def isSpace_def demo_env_def)
  have since: "time_Sub (demo_clock (Suc 0)) (time_Unix 1704067200) = 60 * Minute + 1"
    by (simp add: time_Sub_def demo_clock_def time_Unix_def Minute_def)
  have loop: "convertTargets demo_env False False 100 ''USD'' demo_rates
          (time_Unix (TimeLastUpdated demo_rates)) [''RUB''] (emit Loading ?w3)
      = Ret () (interactive_world\<lparr>files := [historyFile \<mapsto> ''[r1]''], stdin := [], ticks := 2,
        out := [Header, Prompt (AskFrom ''USD''), Prompt (AskTo ''RUB''), Prompt AskAmount,
                Loading,
                ResultText 100 ''USD'' 9000 ''RUB'' (Some 90) (time_Unix 1704067200)
                  (formatTimeAgo (60 * Minute + 1))]\<rparr>)"
    by (simp add: convertTargets_found demo_lookup demo_trim
        saveToHistory_def printResult_def time_Since_def time_Now_def ReadFile_def WriteFile_def
        interactive_world_def emit_def Let_def demo_env_def demo_record1_def since
        TimeLastUpdated_demo)
  show ?thesis
    by (simp add: main_unfold Let_def demo_config_defaults chooseFormat_def inputs
        convertAndPresent_def demo_fetch loop)
qed

section \<open>The claims\<close>

subsection \<open>The converter\<close>

text \<open>
  C1. For every amount and every target code that the rate table holds, \<open>convertCurrency\<close>
  returns the amount multiplied by the stored rate, with no error. The function is a pure
  function of its arguments: it reads no state and returns none.
\<close>

theorem convertCurrency_hit:
  "Rates rates to = Some rate \<Longrightarrow> convertCurrency amount from to rates = (amount * rate, None)"
  by (simp add: convertCurrency_def)

theorem convertCurrency_hit_witness:
  "Rates \<lparr>Base = ''USD'', Date = ''2024-01-01'',
          Rates = [''RUB'' \<mapsto> (90::real), ''EUR'' \<mapsto> 9 / 10],
          TimeLastUpdated = 1704067200\<rparr> ''RUB'' = Some 90
   \<and> convertCurrency 100 ''USD'' ''RUB''
        \<lparr>Base = ''USD'', Date = ''2024-01-01'',
         Rates = [''RUB'' \<mapsto> (90::real), ''EUR'' \<mapsto> 9 / 10],
         TimeLastUpdated = 1704067200\<rparr> = (9000, None)"
proof -
  let ?r = "\<lparr>Base = ''USD'', Date = ''2024-01-01'',
             Rates = [''RUB'' \<mapsto> (90::real), ''EUR'' \<mapsto> 9 / 10],
             TimeLastUpdated = 1704067200\<rparr>"
  have h: "Rates ?r ''RUB'' = Some 90"
    by simp
  show ?thesis
    using h convertCurrency_hit [OF h, of 100 "''USD''"] by simp
qed

text \<open>
  C2. For every amount and every target code that the rate table does not hold,
  \<open>convertCurrency\<close> returns an error whose message contains the code, and the pair it
  returns is never an error-free result.
\<close>

theorem convertCurrency_miss:
  "Rates rates to = None \<Longrightarrow>
     convertCurrency amount from to rates = (0, Some (errorf_not_found to))
     \<and> sublist to (errorf_not_found to)
     \<and> snd (convertCurrency amount from to rates) \<noteq> None"
  by (auto simp: convertCurrency_def errorf_not_found_def sublist_def)

theorem convertCurrency_miss_witness:
  "Rates \<lparr>Base = ''USD'', Date = ''2024-01-01'',
          Rates = [''RUB'' \<mapsto> (90::real)], TimeLastUpdated = 1704067200\<rparr> ''XXX'' = None
   \<and> convertCurrency 10 ''USD'' ''XXX''
        \<lparr>Base = ''USD'', Date = ''2024-01-01'',
         Rates = [''RUB'' \<mapsto> (90::real)], TimeLastUpdated = 1704067200\<rparr>
       = (0, Some (msg_currency_prefix @ ''XXX'' @ msg_currency_suffix))"
proof -
  let ?r = "\<lparr>Base = ''USD'', Date = ''2024-01-01'',
             Rates = [''RUB'' \<mapsto> (90::real)], TimeLastUpdated = 1704067200\<rparr>"
  have h: "Rates ?r ''XXX'' = None"
    by simp
  show ?thesis
    using h convertCurrency_miss [OF h, of 10 "''USD''"] by (simp add: errorf_not_found_def)
qed

subsection \<open>The time-ago formatter\<close>



subsection \<open>The loop over the targets and the exit code\<close>



subsection \<open>The history and the config file\<close>

text \<open>
  C5, as amended. For every initial well-formed history file, appending \<open>N\<close> records with
  \<open>saveToHistory\<close>, each append encoding its list of records to a text that decodes to the
  same list and writing it with success (\<open>saveToHistory\<close> checks neither), and then reading
  the file back, yields the prior records followed by the \<open>N\<close> new ones in the order of
  insertion; \<open>showHistory\<close> then prints them in reverse order followed by their count, or
  the notice of an empty history when there is none. A history file that cannot be read,
  or whose decoding leaves no record, is treated as an empty history by an append.
\<close>

theorem history_append_additive:
  "(ReadFile w historyFile = Some data0 \<and> UnmarshalHistory env data0 = (prior, None)
      \<and> Writable env historyFile
      \<and> (\<forall>k. 1 \<le> k \<and> k \<le> length reqs \<longrightarrow>
           (\<exists>data. MarshalHistory env (prior @ take k (newRecords env (ticks w) reqs)) = Inr data
              \<and> UnmarshalHistory env data
                  = (prior @ take k (newRecords env (ticks w) reqs), None)))
    \<longrightarrow> (\<exists>data. ReadFile (saveAll env reqs w) historyFile = Some data
            \<and> UnmarshalHistory env data = (prior @ newRecords env (ticks w) reqs, None))
        \<and> showHistory env (saveAll env reqs w)
            = (saveAll env reqs w)
                \<lparr>out := out w @ listing (prior @ newRecords env (ticks w) reqs)\<rparr>)
   \<and> ((ReadFile v historyFile = None
         \<or> (\<exists>data. ReadFile v historyFile = Some data \<and> fst (UnmarshalHistory env data) = []))
       \<and> MarshalHistory env (newRecords env (ticks v) [req]) = Inr data1
       \<and> Writable env historyFile
    \<longrightarrow> ReadFile (saveAll env [req] v) historyFile = Some data1)"
proof (intro conjI impI)
  assume h: "ReadFile w historyFile = Some data0 \<and> UnmarshalHistory env data0 = (prior, None)
      \<and> Writable env historyFile
      \<and> (\<forall>k. 1 \<le> k \<and> k \<le> length reqs \<longrightarrow>
           (\<exists>data. MarshalHistory env (prior @ take k (newRecords env (ticks w) reqs)) = Inr data
              \<and> UnmarshalHistory env data
                  = (prior @ take k (newRecords env (ticks w) reqs), None)))"
  then have rb: "\<exists>data. ReadFile (saveAll env reqs w) historyFile = Some data
            \<and> UnmarshalHistory env data = (prior @ newRecords env (ticks w) reqs, None)"
    by (intro saveAll_read_back [of w data0 env prior reqs]) simp_all
  then show "\<exists>data. ReadFile (saveAll env reqs w) historyFile = Some data
            \<and> UnmarshalHistory env data = (prior @ newRecords env (ticks w) reqs, None)" .
  from rb obtain data
    where "ReadFile (saveAll env reqs w) historyFile = Some data"
      and "UnmarshalHistory env data = (prior @ newRecords env (ticks w) reqs, None)"
    by blast
  then show "showHistory env (saveAll env reqs w)
            = (saveAll env reqs w)
                \<lparr>out := out w @ listing (prior @ newRecords env (ticks w) reqs)\<rparr>"
    by (simp add: showHistory_listing saveAll_out)
next
  assume h: "(ReadFile v historyFile = None
         \<or> (\<exists>data. ReadFile v historyFile = Some data \<and> fst (UnmarshalHistory env data) = []))
       \<and> MarshalHistory env (newRecords env (ticks v) [req]) = Inr data1
       \<and> Writable env historyFile"
  obtain "from" to amount result rate updateTime
    where req: "req = (from, to, amount, result, rate, updateTime)"
    by (cases req) auto
  from h show "ReadFile (saveAll env [req] v) historyFile = Some data1"
    unfolding req by (simp add: saveToHistory_fresh)
qed

theorem history_append_additive_witness:
  "ReadFile demo_world historyFile = Some ''[]''
   \<and> UnmarshalHistory demo_env ''[]'' = ([], None)
   \<and> Writable demo_env historyFile
   \<and> ReadFile (saveAll demo_env demo_requests demo_world) historyFile = Some ''[r1,r2]''
   \<and> UnmarshalHistory demo_env ''[r1,r2]'' = ([demo_record1, demo_record2], None)
   \<and> out (showHistory demo_env (saveAll demo_env demo_requests demo_world))
       = [HistoryHeader, HistoryEntry demo_record2, HistoryEntry demo_record1, HistoryCount 2]"
proof -
  have r: "ReadFile demo_world historyFile = Some ''[]''"
    by (simp add: ReadFile_def demo_world_def)
  have u: "UnmarshalHistory demo_env ''[]'' = ([], None)"
    by (simp add: demo_env_def)
  have wr: "Writable demo_env historyFile"
    by (simp add: demo_env_def)
  have t: "ticks demo_world = 0"
    by (simp add: demo_world_def)
  have codec: "\<forall>k. 1 \<le> k \<and> k \<le> length demo_requests \<longrightarrow>
      (\<exists>data. MarshalHistory demo_env ([] @ take k (newRecords demo_env (ticks demo_world) demo_requests)) = Inr data
         \<and> UnmarshalHistory demo_env data
             = ([] @ take k (newRecords demo_env (ticks demo_world) demo_requests), None))"
  proof (intro allI impI)
    fix k assume "1 \<le> k \<and> k \<le> length demo_requests"
    then have "k = 1 \<or> k = 2"
      by (auto simp: demo_requests_def)
    then show "\<exists>data. MarshalHistory demo_env ([] @ take k (newRecords demo_env (ticks demo_world) demo_requests)) = Inr data
         \<and> UnmarshalHistory demo_env data
             = ([] @ take k (newRecords demo_env (ticks demo_world) demo_requests), None)"
      unfolding t demo_newRecords by (auto simp: demo_env_def)
  qed
  from history_append_additive [of demo_world "''[]''" demo_env "[]" demo_requests]
    r u wr codec
  have rb: "\<exists>data. ReadFile (saveAll demo_env demo_requests demo_world) historyFile = Some data
        \<and> UnmarshalHistory demo_env data = ([demo_record1, demo_record2], None)"
    and sh: "showHistory demo_env (saveAll demo_env demo_requests demo_world)
        = (saveAll demo_env demo_requests demo_world)
            \<lparr>out := out demo_world @ listing ([demo_record1, demo_record2])\<rparr>"
    unfolding t demo_newRecords by simp_all
  have dec: "UnmarshalHistory demo_env data = ([demo_record1, demo_record2], None)
      \<Longrightarrow> data = ''[r1,r2]''" for data
    by (simp add: demo_env_def split: if_splits)
  from rb dec have "ReadFile (saveAll demo_env demo_requests demo_world) historyFile = Some ''[r1,r2]''"
    by auto
  moreover have "UnmarshalHistory demo_env ''[r1,r2]'' = ([demo_record1, demo_record2], None)"
    by (simp add: demo_env_def)
  moreover have "out (showHistory demo_env (saveAll demo_env demo_requests demo_world))
       = [HistoryHeader, HistoryEntry demo_record2, HistoryEntry demo_record1, HistoryCount 2]"
    unfolding sh by (simp add: listing_def demo_world_def)
  ultimately show ?thesis
    using r u wr by simp
qed

text \<open>
  The claim as it is written fails where the write fails: the record is dropped without a
  word, the file read back holds the prior records only, and the listing of an empty
  history ends with no count.
\<close>

theorem history_append_additive_counterexample:
  "ReadFile demo_world historyFile = Some ''[]''
   \<and> UnmarshalHistory readonly_env ''[]'' = ([], None)
   \<and> newRecords readonly_env (ticks demo_world) [hd demo_requests]
       = [demo_record1]
   \<and> ReadFile (saveAll readonly_env [hd demo_requests] demo_world)
        historyFile = Some ''[]''
   \<and> out (showHistory readonly_env
            (saveAll readonly_env [hd demo_requests] demo_world))
       = [HistoryEmpty]"
  by (simp add: readonly_env_def demo_env_def demo_world_def demo_requests_def demo_record1_def ReadFile_def
      saveToHistory_def time_Now_def WriteFile_def showHistory_def historyFile_def emit_def)

text \<open>
  C6, as amended. Read and parse errors of the config file, and read and parse errors of
  the history file during an append, are absorbed without any output: \<open>loadConfig\<close> returns
  the defaults when the file cannot be read and otherwise what the decoder left, normalised,
  whether the decoder reported an error or not; \<open>saveToHistory\<close> prints nothing and starts
  from an empty list when the file cannot be read or decodes to no record. The listing of
  the history does surface such errors: \<open>showHistory\<close> prints a red notice when the file
  cannot be read and prints the decoder's error when the file cannot be parsed.
\<close>

theorem file_errors_absorbed:
  "(ReadFile w configFile = None \<longrightarrow>
      loadConfig env w = \<lparr>DefaultFrom = ''USD'', DefaultTo = ''RUB'', OutputFormat = ''text''\<rparr>)
   \<and> (ReadFile w configFile = Some data \<longrightarrow>
        loadConfig env w =
          (let cfg1 = fst (UnmarshalConfig env data
                             \<lparr>DefaultFrom = ''USD'', DefaultTo = ''RUB'', OutputFormat = ''text''\<rparr>)
           in \<lparr>DefaultFrom = ToUpper (DefaultFrom cfg1), DefaultTo = ToUpper (DefaultTo cfg1),
               OutputFormat = ToLower (OutputFormat cfg1)\<rparr>))
   \<and> out (saveToHistory env from to amount result rate updateTime w) = out w
   \<and> ((ReadFile w historyFile = None
         \<or> (\<exists>text. ReadFile w historyFile = Some text \<and> fst (UnmarshalHistory env text) = []))
       \<and> MarshalHistory env
            [\<lparr>Timestamp = Now env (ticks w), FromCurrency = from, ToCurrency = to,
              Amount = amount, Result = result, ExchangeRate = rate,
              RateUpdateTime = updateTime\<rparr>] = Inr data1
       \<and> Writable env historyFile \<longrightarrow>
        ReadFile (saveToHistory env from to amount result rate updateTime w) historyFile
          = Some data1)
   \<and> (ReadFile w historyFile = None \<longrightarrow> showHistory env w = emit RedHistoryMissing w)
   \<and> (ReadFile w historyFile = Some data \<and> UnmarshalHistory env data = (history, Some err) \<longrightarrow>
        showHistory env w = emit (RedHistoryUnreadable err) w)"
  by (auto simp: loadConfig_unreadable loadConfig_decoded saveToHistory_out saveToHistory_fresh
      showHistory_missing showHistory_unreadable)

theorem file_errors_absorbed_witness:
  "ReadFile garbled_world configFile = None
   \<and> loadConfig demo_env garbled_world
       = \<lparr>DefaultFrom = ''USD'', DefaultTo = ''RUB'', OutputFormat = ''text''\<rparr>
   \<and> ReadFile garbled_config_world configFile = Some ''{not json''
   \<and> loadConfig demo_env garbled_config_world
       = \<lparr>DefaultFrom = ''USD'', DefaultTo = ''RUB'', OutputFormat = ''text''\<rparr>
   \<and> ReadFile garbled_world historyFile = Some ''not json''
   \<and> UnmarshalHistory demo_env ''not json'' = ([], Some ''invalid character'')
   \<and> MarshalHistory demo_env [demo_record1] = Inr ''[r1]''
   \<and> ReadFile (saveToHistory demo_env ''USD'' ''RUB'' 100 9000 90 (time_Unix 1704067200) garbled_world)
        historyFile = Some ''[r1]''
   \<and> out (saveToHistory demo_env ''USD'' ''RUB'' 100 9000 90 (time_Unix 1704067200) garbled_world) = []
   \<and> ReadFile garbled_config_world historyFile = None
   \<and> showHistory demo_env garbled_config_world = emit RedHistoryMissing garbled_config_world
   \<and> showHistory demo_env garbled_world = emit (RedHistoryUnreadable ''invalid character'') garbled_world"
proof -
  have a: "ReadFile garbled_world configFile = None"
    by (simp add: ReadFile_def garbled_world_def configFile_def historyFile_def)
  have b: "ReadFile garbled_config_world configFile = Some ''{not json''"
    by (simp add: ReadFile_def garbled_config_world_def)
  have c: "ReadFile garbled_world historyFile = Some ''not json''"
    by (simp add: ReadFile_def garbled_world_def)
  have d: "UnmarshalHistory demo_env ''not json'' = ([], Some ''invalid character'')"
    by (simp add: demo_env_def)
  have e: "MarshalHistory demo_env
            [\<lparr>Timestamp = Now demo_env (ticks garbled_world), FromCurrency = ''USD'',
              ToCurrency = ''RUB'', Amount = 100, Result = 9000, ExchangeRate = 90,
              RateUpdateTime = time_Unix 1704067200\<rparr>] = Inr ''[r1]''"
    by (simp add: demo_env_def demo_record1_def garbled_world_def)
  have e': "MarshalHistory demo_env [demo_record1] = Inr ''[r1]''"
    by (simp add: demo_env_def)
  have f: "Writable demo_env historyFile"
    by (simp add: demo_env_def)
  have g: "ReadFile garbled_config_world historyFile = None"
    by (simp add: ReadFile_def garbled_config_world_def configFile_def historyFile_def)
  have h: "fst (UnmarshalConfig demo_env ''{not json''
            \<lparr>DefaultFrom = ''USD'', DefaultTo = ''RUB'', OutputFormat = ''text''\<rparr>)
       = \<lparr>DefaultFrom = ''USD'', DefaultTo = ''RUB'', OutputFormat = ''text''\<rparr>"
    by (simp add: demo_env_def demo_config_def)
  have o: "out garbled_world = []"
    by (simp add: garbled_world_def)
  from file_errors_absorbed [of garbled_world demo_env "''not json''" "''USD''" "''RUB''" 100 9000 90
      "time_Unix 1704067200" "''[r1]''" "[]" "''invalid character''"]
    file_errors_absorbed [of garbled_config_world demo_env "''{not json''"]
    a b c d e e' f g h o
  show ?thesis
    by (simp add: ToUpper_USD ToUpper_RUB ToLower_text)
qed

text \<open>
  The claim as it is written fails on a history file that is no JSON text: the listing
  prints the decoder's error.
\<close>

theorem file_errors_absorbed_counterexample:
  "ReadFile garbled_world historyFile = Some ''not json''
   \<and> UnmarshalHistory demo_env ''not json'' = ([], Some ''invalid character'')
   \<and> main demo_env [''converter'', ''--history''] garbled_world
       = (0, garbled_world\<lparr>out := [RedHistoryUnreadable ''invalid character'']\<rparr>)"
  by (simp add: main_def showHistory_def ReadFile_def garbled_world_def demo_env_def emit_def)




subsection \<open>The argument list\<close>

text \<open>
  C8, as amended. For every argument list whose first argument is not \<open>--history\<close> (that
  one shows the history and ends with the code 0, whatever follows), the flags \<open>--json\<close>
  and \<open>--csv\<close> are found at any position and removed before the positional arguments are
  read; when \<open>--json\<close> is present, with or without \<open>--csv\<close>, results and errors are
  presented as JSON; with no positional argument left the program prompts for the source,
  the targets and the amount; with exactly three, they are the source, the target list and
  the amount; with any other number the program ends with the code 1.
\<close>

theorem flags_and_positionals:
  "(rest = [] \<or> hd rest \<noteq> ''--history'') \<longrightarrow>
   (let args = filter (\<lambda>a. a \<noteq> ''--json'' \<and> a \<noteq> ''--csv'') rest;
        cfg = loadConfig env w;
        jsonOutput = fst (chooseFormat cfg (''--json'' \<in> set rest) (''--csv'' \<in> set rest));
        csvOutput = snd (chooseFormat cfg (''--json'' \<in> set rest) (''--csv'' \<in> set rest));
        w1 = (if \<not> jsonOutput \<and> \<not> csvOutput then printHeader w else w)
    in stripFlags 0 rest False False = Some (args, ''--json'' \<in> set rest, ''--csv'' \<in> set rest)
       \<and> (''--json'' \<in> set rest \<longrightarrow>
            jsonOutput
            \<and> (\<exists>es. out (snd (main env (prog # rest) w)) = out w @ es \<and> list_all json_style es))
       \<and> (args = [] \<longrightarrow>
            main env (prog # rest) w =
              (let (fromInput, w2) = getInput (AskFrom (DefaultFrom cfg)) w1;
                   (toInput, w3) = getInput (AskTo (DefaultTo cfg)) w2
               in case getAmount env w3 of
                    Exit code w4 \<Rightarrow> (code, w4)
                  | Ret amount w4 \<Rightarrow>
                      convertAndPresent env jsonOutput csvOutput
                        (if fromInput = [] then DefaultFrom cfg else fromInput,
                         if toInput = [] then DefaultTo cfg else toInput, amount) w4))
       \<and> (length args = 3 \<longrightarrow>
            main env (prog # rest) w =
              (case ParseFloat env (args ! 2) of
                 None \<Rightarrow>
                   (1, if jsonOutput \<or> csvOutput then outputError BadAmount jsonOutput w1
                       else emit RedBadAmount w1)
               | Some amount \<Rightarrow>
                   convertAndPresent env jsonOutput csvOutput
                     (ToUpper (args ! 0), ToUpper (args ! 1), amount) w1))
       \<and> (length args \<noteq> 0 \<and> length args \<noteq> 3 \<longrightarrow> fst (main env (prog # rest) w) = 1))"
proof
  assume nh: "rest = [] \<or> hd rest \<noteq> ''--history''"
  let ?args = "filter (\<lambda>a. a \<noteq> ''--json'' \<and> a \<noteq> ''--csv'') rest"
  have flags: "stripFlags 0 rest False False
      = Some (?args, ''--json'' \<in> set rest, ''--csv'' \<in> set rest)"
    by (rule stripFlags_all)
  have json: "''--json'' \<in> set rest \<longrightarrow>
      fst (chooseFormat (loadConfig env w) (''--json'' \<in> set rest) (''--csv'' \<in> set rest))
      \<and> (\<exists>es. out (snd (main env (prog # rest) w)) = out w @ es \<and> list_all json_style es)"
    using main_json_style [OF nh, of env prog w] by (simp add: chooseFormat_flags)
  have none: "?args = [] \<longrightarrow> main env (prog # rest) w =
     (let cfg = loadConfig env w;
          jsonOutput = fst (chooseFormat cfg (''--json'' \<in> set rest) (''--csv'' \<in> set rest));
          csvOutput = snd (chooseFormat cfg (''--json'' \<in> set rest) (''--csv'' \<in> set rest));
          w1 = (if \<not> jsonOutput \<and> \<not> csvOutput then printHeader w else w);
          (fromInput, w2) = getInput (AskFrom (DefaultFrom cfg)) w1;
          (toInput, w3) = getInput (AskTo (DefaultTo cfg)) w2
      in case getAmount env w3 of
           Exit code w4 \<Rightarrow> (code, w4)
         | Ret amount w4 \<Rightarrow>
             convertAndPresent env jsonOutput csvOutput
               (if fromInput = [] then DefaultFrom cfg else fromInput,
                if toInput = [] then DefaultTo cfg else toInput, amount) w4)"
    using main_interactive [OF nh] by blast
  have three: "length ?args = 3 \<longrightarrow> main env (prog # rest) w =
     (let cfg = loadConfig env w;
          args = ?args;
          jsonOutput = fst (chooseFormat cfg (''--json'' \<in> set rest) (''--csv'' \<in> set rest));
          csvOutput = snd (chooseFormat cfg (''--json'' \<in> set rest) (''--csv'' \<in> set rest));
          w1 = (if \<not> jsonOutput \<and> \<not> csvOutput then printHeader w else w)
      in case ParseFloat env (args ! 2) of
           None \<Rightarrow>
             (1, if jsonOutput \<or> csvOutput then outputError BadAmount jsonOutput w1
                 else emit RedBadAmount w1)
         | Some amount \<Rightarrow>
             convertAndPresent env jsonOutput csvOutput
               (ToUpper (args ! 0), ToUpper (args ! 1), amount) w1)"
    using main_three [OF nh] by blast
  have other: "length ?args \<noteq> 0 \<and> length ?args \<noteq> 3 \<longrightarrow> fst (main env (prog # rest) w) = 1"
    using main_wrong_count [OF nh] by blast
  from flags json none three other
  show "let args = filter (\<lambda>a. a \<noteq> ''--json'' \<and> a \<noteq> ''--csv'') rest;
        cfg = loadConfig env w;
        jsonOutput = fst (chooseFormat cfg (''--json'' \<in> set rest) (''--csv'' \<in> set rest));
        csvOutput = snd (chooseFormat cfg (''--json'' \<in> set rest) (''--csv'' \<in> set rest));
        w1 = (if \<not> jsonOutput \<and> \<not> csvOutput then printHeader w else w)
    in stripFlags 0 rest False False = Some (args, ''--json'' \<in> set rest, ''--csv'' \<in> set rest)
       \<and> (''--json'' \<in> set rest \<longrightarrow>
            jsonOutput
            \<and> (\<exists>es. out (snd (main env (prog # rest) w)) = out w @ es \<and> list_all json_style es))
       \<and> (args = [] \<longrightarrow>
            main env (prog # rest) w =
              (let (fromInput, w2) = getInput (AskFrom (DefaultFrom cfg)) w1;
                   (toInput, w3) = getInput (AskTo (DefaultTo cfg)) w2
               in case getAmount env w3 of
                    Exit code w4 \<Rightarrow> (code, w4)
                  | Ret amount w4 \<Rightarrow>
                      convertAndPresent env jsonOutput csvOutput
                        (if fromInput = [] then DefaultFrom cfg else fromInput,
                         if toInput = [] then DefaultTo cfg else toInput, amount) w4))
       \<and> (length args = 3 \<longrightarrow>
            main env (prog # rest) w =
              (case ParseFloat env (args ! 2) of
                 None \<Rightarrow>
                   (1, if jsonOutput \<or> csvOutput then outputError BadAmount jsonOutput w1
                       else emit RedBadAmount w1)
               | Some amount \<Rightarrow>
                   convertAndPresent env jsonOutput csvOutput
                     (ToUpper (args ! 0), ToUpper (args ! 1), amount) w1))
       \<and> (length args \<noteq> 0 \<and> length args \<noteq> 3 \<longrightarrow> fst (main env (prog # rest) w) = 1)"
    unfolding Let_def by blast
qed

theorem flags_and_positionals_witness:
  "hd [''--csv'', ''usd'', ''--json'', ''rub'', ''100''] \<noteq> ''--history''
   \<and> stripFlags 0 [''--csv'', ''usd'', ''--json'', ''rub'', ''100''] False False
       = Some ([''usd'', ''rub'', ''100''], True, True)
   \<and> main demo_env [''converter'', ''--csv'', ''usd'', ''--json'', ''rub'', ''100''] demo_world
       = (0, demo_world\<lparr>files := [historyFile \<mapsto> ''[r1]''], ticks := 2,
              out := [ResultJSON ''{}'']\<rparr>)
   \<and> stripFlags 0 [''--json'', ''usd'', ''rub''] False False = Some ([''usd'', ''rub''], True, False)
   \<and> fst (main demo_env [''converter'', ''--json'', ''usd'', ''rub''] demo_world) = 1
   \<and> stripFlags 0 [] False False = Some ([], False, False)
   \<and> out (snd (main demo_env [''converter''] interactive_world))
       = [Header, Prompt (AskFrom ''USD''), Prompt (AskTo ''RUB''), Prompt AskAmount, Loading,
          ResultText 100 ''USD'' 9000 ''RUB'' (Some 90) (time_Unix 1704067200)
            (formatTimeAgo (60 * Minute + 1))]"
proof -
  have a: "[''--csv'', ''usd'', ''--json'', ''rub'', ''100''] = []
      \<or> hd [''--csv'', ''usd'', ''--json'', ''rub'', ''100''] \<noteq> ''--history''"
    and b: "[''--json'', ''usd'', ''rub''] = [] \<or> hd [''--json'', ''usd'', ''rub''] \<noteq> ''--history''"
    and c: "([] :: string list) = [] \<or> hd ([] :: string list) \<noteq> ''--history''"
    by simp_all
  from flags_and_positionals [of "[''--csv'', ''usd'', ''--json'', ''rub'', ''100'']"
      demo_env demo_world "''converter''"] a
  have one: "stripFlags 0 [''--csv'', ''usd'', ''--json'', ''rub'', ''100''] False False
       = Some ([''usd'', ''rub'', ''100''], True, True)"
    by (simp add: Let_def)
  from flags_and_positionals [of "[''--json'', ''usd'', ''rub'']"
      demo_env demo_world "''converter''"] b
  have two: "stripFlags 0 [''--json'', ''usd'', ''rub''] False False = Some ([''usd'', ''rub''], True, False)"
    and two': "fst (main demo_env [''converter'', ''--json'', ''usd'', ''rub''] demo_world) = 1"
    by (simp_all add: Let_def)
  from flags_and_positionals [of "[]" demo_env interactive_world "''converter''"] c
  have three: "stripFlags 0 [] False False = Some ([], False, False)"
    by (simp add: Let_def)
  from one two two' three demo_run_both_flags demo_run_interactive show ?thesis
    by simp
qed

text \<open>
  The claim as it is written fails on the argument list \<open>--history\<close>: one positional
  argument is left after the flags are removed, and the program lists the history and
  ends with the code 0; flags after \<open>--history\<close> are not looked at.
\<close>

theorem flags_and_positionals_counterexample:
  "stripFlags 0 [''--history''] False False = Some ([''--history''], False, False)
   \<and> main demo_env [''converter'', ''--history''] demo_world
       = (0, demo_world\<lparr>out := [HistoryEmpty]\<rparr>)
   \<and> main demo_env [''converter'', ''--history'', ''--json''] demo_world
       = (0, demo_world\<lparr>out := [HistoryEmpty]\<rparr>)"
  by (simp add: stripFlags_all main_def showHistory_def ReadFile_def demo_world_def
      demo_env_def emit_def)

subsection \<open>Writes to the history\<close>



subsection \<open>Durations below zero\<close>



end
